theory Spec2Isabelle
  imports Complex_Main
begin

section \<open>Geodesics on an ellipsoid of revolution: the solver of Geodesic.cpp\<close>

text \<open>
  The embedding follows \<^verbatim>\<open>src/GeographicLib/Geodesic.cpp\<close>. A C++ \<^verbatim>\<open>double\<close> is
  modelled as a \<^typ>\<open>real\<close>: arithmetic is exact, there is no rounding, no signed zero, no
  infinity and no NaN. Where the source divides by zero or takes the square root of a
  negative number (NaN or infinity in C++), the model has HOL's total operations
  (\<open>x / 0 = 0\<close>, \<open>sqrt (- x) = - sqrt x\<close>); the evaluations at concrete arguments below do
  not meet these cases.
  The \<^verbatim>\<open>int\<close> variables \<^verbatim>\<open>lonsign\<close>, \<^verbatim>\<open>swapp\<close>, \<^verbatim>\<open>latsign\<close> are \<^typ>\<open>int\<close>, loop
  counters are \<^typ>\<open>nat\<close>.
\<close>

subsection \<open>Constants and helpers of the headers\<close>

text \<open>
  The headers \<^verbatim>\<open>Geodesic.hpp\<close> and \<^verbatim>\<open>Constants.hpp\<close> are not among the sources. What
  \<^verbatim>\<open>Geodesic.cpp\<close> uses of them is defined here, from the description the specification
  gives.
\<close>

text \<open>Modelled from the spec: \<^verbatim>\<open>Constants::degree()\<close>, the factor \<open>\<pi>/180\<close> that converts
  degrees to radians (\<^verbatim>\<open>Constants::pi()\<close> is \<^term>\<open>pi\<close>).\<close>

definition degree :: real where
  "degree = pi / 180"

text \<open>Modelled from the spec: \<^verbatim>\<open>sq\<close>, the square used as \<open>cos\<^sup>2 x - sin\<^sup>2 x\<close>.\<close>

definition sq :: "real \<Rightarrow> real" where
  "sq x = x * x"

text \<open>Modelled from the spec: \<^verbatim>\<open>hypot(x, y)\<close> returns \<open>\<surd>(x\<^sup>2 + y\<^sup>2)\<close>.\<close>

definition hypot :: "real \<Rightarrow> real \<Rightarrow> real" where
  "hypot x y = sqrt (x * x + y * y)"

text \<open>Modelled from the spec: \<^verbatim>\<open>SinCosNorm(s, c)\<close> divides both by \<open>\<surd>(s\<^sup>2 + c\<^sup>2)\<close>. The
  source updates its two reference arguments; the model returns the new pair.\<close>

definition SinCosNorm :: "real \<Rightarrow> real \<Rightarrow> real \<times> real" where
  "SinCosNorm sinx cosx = (let r = hypot sinx cosx in (sinx / r, cosx / r))"

text \<open>Modelled from the spec: \<^verbatim>\<open>AngNormalize(x)\<close> reduces \<open>x\<close> by \<open>\<plusminus>360\<close> until it lies in
  \<open>(-180, 180]\<close>.\<close>

function AngNormalize :: "real \<Rightarrow> real" where
  "AngNormalize x =
     (if 180 < x then AngNormalize (x - 360)
      else if x \<le> - 180 then AngNormalize (x + 360)
      else x)"
  by pat_completeness auto
termination
proof (relation "measure (\<lambda>x. nat \<bar>\<lceil>(x - 180) / 360\<rceil>\<bar>)")
  show "wf (measure (\<lambda>x::real. nat \<bar>\<lceil>(x - 180) / 360\<rceil>\<bar>))" by simp
next
  fix x :: real
  assume a: "180 < x"
  have "(x - 360 - 180) / 360 = (x - 180) / 360 - 1"
    by (simp add: diff_divide_distrib)
  then have e: "\<lceil>(x - 360 - 180) / 360\<rceil> = \<lceil>(x - 180) / 360\<rceil> - 1"
    by (simp only: ceiling_diff_one)
  have "0 < \<lceil>(x - 180) / 360\<rceil>" using a by (simp add: less_ceiling_iff)
  then have "nat \<bar>\<lceil>(x - 360 - 180) / 360\<rceil>\<bar> < nat \<bar>\<lceil>(x - 180) / 360\<rceil>\<bar>"
    unfolding e by linarith
  then show "(x - 360, x) \<in> measure (\<lambda>x. nat \<bar>\<lceil>(x - 180) / 360\<rceil>\<bar>)" by simp
next
  fix x :: real
  assume a: "\<not> 180 < x" "x \<le> - 180"
  have "(x + 360 - 180) / 360 = (x - 180) / 360 + 1"
    by (simp add: diff_divide_distrib add_divide_distrib)
  then have e: "\<lceil>(x + 360 - 180) / 360\<rceil> = \<lceil>(x - 180) / 360\<rceil> + 1"
    by (simp only: ceiling_add_one)
  have "\<lceil>(x - 180) / 360\<rceil> \<le> - 1" using a by (simp add: ceiling_le_iff)
  then have "nat \<bar>\<lceil>(x + 360 - 180) / 360\<rceil>\<bar> < nat \<bar>\<lceil>(x - 180) / 360\<rceil>\<bar>"
    unfolding e by linarith
  then show "(x + 360, x) \<in> measure (\<lambda>x. nat \<bar>\<lceil>(x - 180) / 360\<rceil>\<bar>)" by simp
qed

declare AngNormalize.simps [simp del]

text \<open>Modelled from the spec: \<^verbatim>\<open>AngRound(x)\<close> snaps \<open>x\<close> to \<open>0\<close> if \<open>|x| < 2\<^sup>-\<^sup>5\<^sup>2 \<cdot> |x + 1|\<close>
  (a threshold of about one machine epsilon) and returns \<open>x\<close> otherwise.\<close>

definition AngRound :: "real \<Rightarrow> real" where
  "AngRound x = (if \<bar>x\<bar> < \<bar>x + 1\<bar> / 2 ^ 52 then 0 else x)"

text \<open>Modelled from the spec: the constant \<^verbatim>\<open>azi2sense\<close> is \<open>\<plusminus>1\<close>, \<open>+1\<close> by default.\<close>

definition azi2sense :: int where
  "azi2sense = 1"

text \<open>Modelled from the spec: the macro \<^verbatim>\<open>maxpow_taucoef\<close>, the series order \<open>N = 8\<close> of the
  reference setting.\<close>

definition maxpow_taucoef :: nat where
  "maxpow_taucoef = 8"

text \<open>Modelled from the spec: the macro \<^verbatim>\<open>maxpow_sigcoef\<close>, the same order \<open>N = 8\<close>.\<close>

definition maxpow_sigcoef :: nat where
  "maxpow_sigcoef = 8"

text \<open>Modelled from the spec: the macro \<^verbatim>\<open>maxpow_lamcoef\<close>, the same order \<open>N = 8\<close>.\<close>

definition maxpow_lamcoef :: nat where
  "maxpow_lamcoef = 8"

text \<open>
  The C library's \<^verbatim>\<open>atan2(y, x)\<close> on reals: the angle of the point \<open>(x, y)\<close> in \<open>(-\<pi>, \<pi>]\<close>,
  and \<open>0\<close> at the origin. (On doubles \<^verbatim>\<open>atan2(-0.0, x)\<close> with \<open>x < 0\<close> is \<open>-\<pi>\<close>; the reals
  have one zero.)
\<close>

definition atan2 :: "real \<Rightarrow> real \<Rightarrow> real" where
  "atan2 y x =
     (if 0 < x then arctan (y / x)
      else if x < 0 then (if 0 \<le> y then arctan (y / x) + pi else arctan (y / x) - pi)
      else if 0 < y then pi / 2
      else if y < 0 then - (pi / 2)
      else 0)"

text \<open>The C library's \<^verbatim>\<open>cbrt\<close>: the real cube root, of the sign of its argument.\<close>

definition cbrt :: "real \<Rightarrow> real" where
  "cbrt x = root 3 x"

subsection \<open>The static constants of the class\<close>

text \<open>\<^verbatim>\<open>numeric_limits<double>::min()\<close> is \<open>2\<^sup>-\<^sup>1\<^sup>0\<^sup>2\<^sup>2\<close> and \<^verbatim>\<open>epsilon()\<close> is \<open>2\<^sup>-\<^sup>5\<^sup>2\<close>.\<close>

definition eps2 :: real where
  "eps2 = sqrt (1 / 2 ^ 1022)"

definition tol :: real where
  "tol = 100 * (1 / 2 ^ 52)"

definition tol1 :: real where
  "tol1 = sqrt (1 / 2 ^ 52)"

definition xthresh :: real where
  "xthresh = 10 * tol1"

subsection \<open>The ellipsoid\<close>

record geodesic =
  g_a :: real
  g_f :: real
  g_f1 :: real
  g_e2 :: real
  g_ep2 :: real
  g_b :: real

text \<open>The constructor \<^verbatim>\<open>Geodesic::Geodesic(a, r)\<close>; the members are initialised in the order
  written.\<close>

definition Geodesic :: "real \<Rightarrow> real \<Rightarrow> geodesic" where
  "Geodesic a r =
     (let f = (if 0 < r then 1 / r else 0);
          f1 = 1 - f;
          e2 = f * (2 - f);
          ep2 = e2 / sq f1;
          b = a * f1
      in \<lparr>g_a = a, g_f = f, g_f1 = f1, g_e2 = e2, g_ep2 = ep2, g_b = b\<rparr>)"

text \<open>Modelled from the spec: the constants \<^verbatim>\<open>Constants::WGS84_a()\<close> and
  \<^verbatim>\<open>Constants::WGS84_r()\<close>, \<open>a = 6378137\<close> and \<open>1/f = 298.257223563\<close>, from which the source
  builds \<^verbatim>\<open>Geodesic::WGS84\<close>.\<close>

definition WGS84 :: geodesic where
  "WGS84 = Geodesic 6378137 (298257223563 / 1000000000)"

subsection \<open>Clenshaw summation\<close>

text \<open>
  The loop \<^verbatim>\<open>for (int j = n; --j;)\<close> of \<^verbatim>\<open>SinSeries\<close>: the counter is decremented before
  the test, the body runs for \<open>j = n - 1, \<dots>, 1\<close> and reads \<^verbatim>\<open>c[j - 1]\<close>. The first argument
  of the equations below is the value of \<open>j\<close> after the decrement.
\<close>

fun SinSeries_loop :: "real \<Rightarrow> real list \<Rightarrow> nat \<Rightarrow> real \<Rightarrow> real \<Rightarrow> real" where
  "SinSeries_loop ar c 0 y0 y1 = y0"
| "SinSeries_loop ar c (Suc j) y0 y1 = SinSeries_loop ar c j (ar * y0 - y1 + c ! j) y0"

text \<open>The value \<^verbatim>\<open>SinSeries\<close> computes when \<open>1 \<le> n\<close> and \<open>c\<close> has \<open>n\<close> entries.\<close>

definition SinSeries_val :: "real \<Rightarrow> real \<Rightarrow> real list \<Rightarrow> nat \<Rightarrow> real" where
  "SinSeries_val sinx cosx c n =
     (let ar = 2 * (sq cosx - sq sinx)
      in 2 * sinx * cosx * SinSeries_loop ar c (n - 1) (c ! (n - 1)) 0)"

text \<open>
  \<^verbatim>\<open>SinSeries(sinx, cosx, c, n)\<close>. For \<open>n = 0\<close> the source reads \<^verbatim>\<open>c[-1]\<close> and its loop does
  not stop at \<open>j = 0\<close> (``THIS REQUIRES THAT n BE POSITIVE''), and it reads \<^verbatim>\<open>c[n - 1]\<close>
  whatever the length of the array: outside \<open>1 \<le> n \<le> length c\<close> the function has no
  value.
\<close>

definition SinSeries :: "real \<Rightarrow> real \<Rightarrow> real list \<Rightarrow> nat \<Rightarrow> real option" where
  "SinSeries sinx cosx c n =
     (if 1 \<le> n \<and> n \<le> length c then Some (SinSeries_val sinx cosx c n) else None)"


subsection \<open>The series of order 8\<close>

text \<open>
  The functions below are the branches \<^verbatim>\<open>MAXPOW_... >= 8\<close> of the generated code at the end
  of the source file. A function that fills an array \<^verbatim>\<open>c[0..7]\<close> returns the list of its
  entries; the running power \<^verbatim>\<open>t\<close> (\<^verbatim>\<open>t *= u2\<close>) is \<open>t0, t1, \<dots>\<close>.
\<close>

definition tauScale :: "real \<Rightarrow> real" where
  "tauScale u2 =
     (u2 * (u2 * (u2 * (u2 * (u2 * (u2 * ((3624192 - 2760615 * u2) * u2 - 4967424) + 7225344) -
     11468800) + 20971520) - 50331648) + 268435456) + 1073741824) / 1073741824"

definition tauCoeff :: "real \<Rightarrow> real list" where
  "tauCoeff u2 =
     (let t0 = u2;
          c0 = t0 * (u2 * (u2 * (u2 * (u2 * (u2 * (u2 * (428731 * u2 - 557402) + 748544) -
                1046528) + 1540096) - 2424832) + 4194304) - 8388608) / 67108864;
          t1 = t0 * u2;
          c1 = t1 * (u2 * (u2 * (u2 * (u2 * ((480096 - 397645 * u2) * u2 - 586016) + 720896) -
                884736) + 1048576) - 1048576) / 268435456;
          t2 = t1 * u2;
          c2 = t2 * (u2 * (u2 * (u2 * (u2 * (92295 * u2 - 100482) + 106880) - 108288) + 98304)
                - 65536) / 201326592;
          t3 = t2 * u2;
          c3 = t3 * (u2 * (u2 * ((128512 - 136971 * u2) * u2 - 111104) + 81920) - 40960) /
                1073741824;
          t4 = t3 * u2;
          c4 = t4 * (u2 * (u2 * (9555 * u2 - 7210) + 4480) - 1792) / 335544320;
          t5 = t4 * u2;
          c5 = t5 * ((672 - 1251 * u2) * u2 - 224) / 268435456;
          t6 = t5 * u2;
          c6 = t6 * (231 * u2 - 66) / 469762048;
          t7 = t6 * u2;
          c7 = - 429 * t7 / 17179869184
      in [c0, c1, c2, c3, c4, c5, c6, c7])"

definition sigCoeff :: "real \<Rightarrow> real list" where
  "sigCoeff u2 =
     (let t0 = u2;
          d0 = t0 * (u2 * (u2 * (u2 * (u2 * (u2 * ((15107266 - 11062823 * u2) * u2 - 21467904)
                + 31944192) - 50135040) + 83755008) - 150994944) + 301989888) / 2415919104;
          t1 = t0 * u2;
          d1 = t1 * (u2 * (u2 * (u2 * (u2 * (u2 * (112064929 * u2 - 151134240) + 206026080) -
                281149440) + 376504320) - 471859200) + 471859200) / 24159191040;
          t2 = t1 * u2;
          d2 = t2 * (u2 * (u2 * (u2 * ((2266302 - 1841049 * u2) * u2 - 2690560) + 2976768) -
                2850816) + 1900544) / 402653184;
          t3 = t2 * u2;
          d3 = t3 * (u2 * (u2 * (u2 * (174543337 * u2 - 182201856) + 171121152) - 132464640) +
                66232320) / 48318382080;
          t4 = t3 * u2;
          d4 = t4 * (u2 * ((5126290 - 6292895 * u2) * u2 - 3328320) + 1331328) / 3019898880;
          t5 = t4 * u2;
          d5 = t5 * (u2 * (45781749 * u2 - 25590432) + 8530144) / 56371445760;
          t6 = t5 * u2;
          d6 = t6 * (918970 - 3216395 * u2) / 16911433728;
          t7 = t6 * u2;
          d7 = 109167851 * t7 / 5411658792960
      in [d0, d1, d2, d3, d4, d5, d6, d7])"

definition dlamScale :: "real \<Rightarrow> real \<Rightarrow> real" where
  "dlamScale f mu =
     (let g = (f * (f * (f * (f * (f * (f * (f * mu * (mu * (mu * (mu * (mu * (mu * (184041 * mu
              - 960498) + 2063880) - 2332400) + 1459200) - 479232) + 65536) + mu * (mu * (mu *
              (mu * ((544320 - 121968 * mu) * mu - 963200) + 844800) - 368640) + 65536)) + mu *
              (mu * (mu * (mu * (84672 * mu - 313600) + 435200) - 270336) + 65536)) + mu * (mu *
              ((184320 - 62720 * mu) * mu - 184320) + 65536)) + mu * (mu * (51200 * mu - 110592)
              + 65536)) + (65536 - 49152 * mu) * mu) + 65536 * mu) - 262144) / 262144
      in f * g)"

definition dlamScalemu :: "real \<Rightarrow> real \<Rightarrow> real" where
  "dlamScalemu f mu =
     (let h = (f * (f * (f * (f * (f * (f * (mu * (mu * (mu * (mu * (mu * (1288287 * mu -
              5762988) + 10319400) - 9329600) + 4377600) - 958464) + 65536) + mu * (mu * (mu *
              ((2721600 - 731808 * mu) * mu - 3852800) + 2534400) - 737280) + 65536) + mu * (mu
              * (mu * (423360 * mu - 1254400) + 1305600) - 540672) + 65536) + mu * ((552960 -
              250880 * mu) * mu - 368640) + 65536) + mu * (153600 * mu - 221184) + 65536) -
              98304 * mu + 65536) + 65536) / 262144
      in h * sq f)"

definition dlamCoeff :: "real \<Rightarrow> real \<Rightarrow> real list" where
  "dlamCoeff f mu =
     (let s = f * mu;
          t0 = s;
          e0 = (f * (f * (f * (f * (f * (f * (f * (mu * (mu * (mu * (mu * (mu * ((30816920 -
                5080225 * mu) * mu - 79065664) + 110840000) - 91205632) + 43638784) - 11010048)
                + 1048576) + mu * (mu * (mu * (mu * (mu * (3213004 * mu - 17049088) + 37224832)
                - 42637312) + 26828800) - 8650752) + 1048576) + mu * (mu * (mu * ((9543424 -
                2100608 * mu) * mu - 17160192) + 15196160) - 6553600) + 1048576) + mu * (mu *
                (mu * (1435648 * mu - 5419008) + 7626752) - 4718592) + 1048576) + mu * ((3129344
                - 1044480 * mu) * mu - 3145728) + 1048576) + mu * (835584 * mu - 1835008) +
                1048576) - 786432 * mu + 1048576) + 1048576) * t0 / 8388608;
          t1 = t0 * s;
          e1 = (f * (f * (f * (f * (f * (f * (mu * (mu * (mu * (mu * (mu * (2092939 * mu -
                12074982) + 29005488) - 37129344) + 26700800) - 10207232) + 1605632) + mu * (mu
                * (mu * ((6316264 - 1270932 * mu) * mu - 12598272) + 12618240) - 6348800) +
                1277952) + mu * (mu * (mu * (787136 * mu - 3268608) + 5143040) - 3645440) +
                983040) + mu * ((1648640 - 498688 * mu) * mu - 1859584) + 720896) + mu * (323584
                * mu - 778240) + 491520) - 212992 * mu + 294912) + 131072) * t1 / 8388608;
          t2 = t1 * s;
          e2 = (f * (f * (f * (f * (f * (mu * (mu * (mu * ((13101384 - 2474307 * mu) * mu -
                28018000) + 30323072) - 16658432) + 3727360) + mu * (mu * (mu * (1386756 * mu -
                6137024) + 10352064) - 7923712) + 2334720) + mu * ((2705152 - 770048 * mu) * mu
                - 3254272) + 1351680) + mu * (416256 * mu - 1052672) + 696320) - 208896 * mu +
                294912) + 81920) * t2 / 25165824;
          t3 = t2 * s;
          e3 = (f * (f * (f * (f * (mu * (mu * (mu * (273437 * mu - 1265846) + 2238200) -
                1799088) + 557760) + mu * ((492328 - 134532 * mu) * mu - 616928) + 266560) + mu
                * (62080 * mu - 162048) + 110080) - 25088 * mu + 35840) + 7168) * t3 / 8388608;
          t4 = t3 * s;
          e4 = (f * (f * (f * (mu * ((1333160 - 353765 * mu) * mu - 1718160) + 761600) + mu *
                (142140 * mu - 379200) + 262080) - 48000 * mu + 69120) + 10752) * t4 / 41943040;
          t5 = t4 * s;
          e5 = (f * (f * (mu * (39633 * mu - 107426) + 75152) - 11484 * mu + 16632) + 2112) *
                t5 / 25165824;
          t6 = t5 * s;
          e6 = (f * (16016 - 11011 * mu) + 1716) * t6 / 58720256;
          t7 = t6 * s;
          e7 = 715 * t7 / 67108864
      in [e0, e1, e2, e3, e4, e5, e6, e7])"

definition dlamCoeffmu :: "real \<Rightarrow> real \<Rightarrow> real list" where
  "dlamCoeffmu f mu =
     (let s = f * mu;
          t0 = f;
          h0 = (f * (f * (f * (f * (f * (f * (f * (mu * (mu * (mu * (mu * (mu * ((53929610 -
                10160450 * mu) * mu - 118598496) + 138550000) - 91205632) + 32729088) - 5505024)
                + 262144) + mu * (mu * (mu * (mu * (mu * (5622757 * mu - 25573632) + 46531040) -
                42637312) + 20121600) - 4325376) + 262144) + mu * (mu * (mu * ((11929280 -
                3150912 * mu) * mu - 17160192) + 11397120) - 3276800) + 262144) + mu * (mu * (mu
                * (1794560 * mu - 5419008) + 5720064) - 2359296) + 262144) + mu * ((2347008 -
                1044480 * mu) * mu - 1572864) + 262144) + mu * (626688 * mu - 917504) + 262144)
                - 393216 * mu + 262144) + 262144) * t0 / 2097152;
          t1 = t0 * s;
          h1 = (f * (f * (f * (f * (f * (f * (mu * (mu * (mu * (mu * (mu * (8371756 * mu -
                42262437) + 87016464) - 92823360) + 53401600) - 15310848) + 1605632) + mu * (mu
                * (mu * ((18948792 - 4448262 * mu) * mu - 31495680) + 25236480) - 9523200) +
                1277952) + mu * (mu * (mu * (2361408 * mu - 8171520) + 10286080) - 5468160) +
                983040) + mu * ((3297280 - 1246720 * mu) * mu - 2789376) + 720896) + mu *
                (647168 * mu - 1167360) + 491520) - 319488 * mu + 294912) + 131072) * t1 /
                4194304;
          t2 = t1 * s;
          h2 = (f * (f * (f * (f * (f * (mu * (mu * (mu * ((22927422 - 4948614 * mu) * mu -
                42027000) + 37903840) - 16658432) + 2795520) + mu * (mu * (mu * (2426823 * mu -
                9205536) + 12940080) - 7923712) + 1751040) + mu * ((3381440 - 1155072 * mu) * mu
                - 3254272) + 1013760) + mu * (520320 * mu - 1052672) + 522240) - 208896 * mu +
                221184) + 61440) * t2 / 6291456;
          t3 = t2 * s;
          h3 = (f * (f * (f * (f * (mu * (mu * (mu * (1093748 * mu - 4430461) + 6714600) -
                4497720) + 1115520) + mu * ((1476984 - 470862 * mu) * mu - 1542320) + 533120) +
                mu * (186240 * mu - 405120) + 220160) - 62720 * mu + 71680) + 14336) * t3 /
                4194304;
          t4 = t3 * s;
          h4 = (f * (f * (f * (mu * ((466606 - 141506 * mu) * mu - 515448) + 190400) + mu *
                (49749 * mu - 113760) + 65520) - 14400 * mu + 17280) + 2688) * t4 / 2097152;
          t5 = t4 * s;
          h5 = (f * (f * (mu * (158532 * mu - 375991) + 225456) - 40194 * mu + 49896) + 6336) *
                t5 / 12582912;
          t6 = t5 * s;
          h6 = (f * (4004 - 3146 * mu) + 429) * t6 / 2097152;
          t7 = t6 * s;
          h7 = 715 * t7 / 8388608
      in [h0, h1, h2, h3, h4, h5, h6, h7])"

subsection \<open>The longitude difference \<^verbatim>\<open>Chi12\<close> and its derivative\<close>

text \<open>The guard at the entry of \<^verbatim>\<open>Chi12\<close>: the parameter \<^verbatim>\<open>calp1\<close> (passed by value) is
  replaced by \<open>- eps2\<close> on the degenerate equatorial line.\<close>

definition Chi12_calp1 :: "real \<Rightarrow> real \<Rightarrow> real" where
  "Chi12_calp1 sbet1 calp1 = (if sbet1 = 0 \<and> calp1 = 0 then - eps2 else calp1)"

text \<open>\<^verbatim>\<open>calp0 = hypot(calp1, salp1 * sbet1)\<close>, computed from the guarded \<^verbatim>\<open>calp1\<close>.\<close>

definition Chi12_calp0 :: "real \<Rightarrow> real \<Rightarrow> real \<Rightarrow> real" where
  "Chi12_calp0 sbet1 salp1 calp1 = hypot (Chi12_calp1 sbet1 calp1) (salp1 * sbet1)"

text \<open>
  The reference arguments \<^verbatim>\<open>Chi12\<close> assigns, and its return value \<open>chi12\<close>. \<^verbatim>\<open>dchi12\<close> is
  assigned only if \<^verbatim>\<open>diffp\<close> holds. The work array \<^verbatim>\<open>c\<close> is overwritten by every user
  before it is read, and is local here.
\<close>

record chi12_out =
  o_chi12 :: real
  o_salp2 :: real
  o_calp2 :: real
  o_sig12 :: real
  o_ssig1 :: real
  o_csig1 :: real
  o_ssig2 :: real
  o_csig2 :: real
  o_u2 :: real
  o_dchi12 :: "real option"

definition Chi12 ::
  "geodesic \<Rightarrow> real \<Rightarrow> real \<Rightarrow> real \<Rightarrow> real \<Rightarrow> real \<Rightarrow> real \<Rightarrow> bool \<Rightarrow> chi12_out" where
  "Chi12 g sbet1 cbet1 sbet2 cbet2 salp1 calp1_arg diffp =
     (let calp1 = Chi12_calp1 sbet1 calp1_arg;
          salp0 = salp1 * cbet1;
          calp0 = Chi12_calp0 sbet1 salp1 calp1_arg;
          (ssig1, csig1) = SinCosNorm sbet1 (calp1 * cbet1);
          (slam1, clam1) = SinCosNorm (salp0 * sbet1) (calp1 * cbet1);
          salp2 = (if cbet2 \<noteq> cbet1 then salp0 / cbet2 else salp1);
          calp2 = (if cbet2 \<noteq> cbet1 \<or> \<bar>sbet2\<bar> \<noteq> - sbet1
                   then sqrt (sq (calp1 * cbet1) +
                          (if cbet1 < - sbet1
                           then (cbet2 - cbet1) * (cbet1 + cbet2)
                           else (sbet1 - sbet2) * (sbet1 + sbet2))) / cbet2
                   else \<bar>calp1\<bar>);
          (ssig2, csig2) = SinCosNorm sbet2 (calp2 * cbet2);
          (slam2, clam2) = SinCosNorm (salp0 * sbet2) (calp2 * cbet2);
          sig12 = atan2 (max (csig1 * ssig2 - ssig1 * csig2) 0)
                    (csig1 * csig2 + ssig1 * ssig2);
          lam12 = atan2 (max (clam1 * slam2 - slam1 * clam2) 0)
                    (clam1 * clam2 + slam1 * slam2);
          mu = sq calp0;
          c = dlamCoeff (g_f g) mu;
          eta12 = SinSeries_val ssig2 csig2 c maxpow_lamcoef -
                  SinSeries_val ssig1 csig1 c maxpow_lamcoef;
          lamscale = dlamScale (g_f g) mu;
          chi12 = lam12 + salp0 * lamscale * (sig12 + eta12);
          dchi12 =
            (if diffp then
               (let dalp0 = cbet1 * calp1 / calp0;
                    dalp2 = (if calp2 \<noteq> 0 then calp1 * cbet1 / (calp2 * cbet2)
                             else if 0 \<le> calp1 then 1 else - 1);
                    dsig1 = ssig1 * salp0 / calp0;
                    dsig2 = ssig2 * salp0 / calp0 * dalp2;
                    dlam1 = sbet1 * sq clam1 + slam1 * salp0 / (calp0 * cbet1);
                    dlam2 = (sbet2 * sq clam2 + slam2 * salp0 / (calp0 * cbet2)) * dalp2;
                    c' = dlamCoeffmu (g_f g) mu;
                    dmu = - 2 * calp0 * salp0 * dalp0;
                    deta12 = dmu * (SinSeries_val ssig2 csig2 c' maxpow_lamcoef -
                                    SinSeries_val ssig1 csig1 c' maxpow_lamcoef);
                    dlamscale = dlamScalemu (g_f g) mu * dmu;
                    dchisig = - g_e2 g * salp0 *
                      (dsig2 / (sqrt (1 - g_e2 g * (1 - mu * sq ssig2)) + 1) -
                       dsig1 / (sqrt (1 - g_e2 g * (1 - mu * sq ssig1)) + 1))
                in Some ((dlam2 - dlam1) + dchisig +
                         (dalp0 * calp0 * lamscale + salp0 * dlamscale) * (sig12 + eta12) +
                         salp0 * lamscale * deta12))
             else None);
          u2 = mu * g_ep2 g
      in \<lparr>o_chi12 = chi12, o_salp2 = salp2, o_calp2 = calp2, o_sig12 = sig12,
          o_ssig1 = ssig1, o_csig1 = csig1, o_ssig2 = ssig2, o_csig2 = csig2,
          o_u2 = u2, o_dchi12 = dchi12\<rparr>)"


subsection \<open>The inverse problem\<close>

text \<open>
  The canonical form \<^verbatim>\<open>Inverse\<close> brings its arguments to, with the three signs that
  record the transformation (\<open>1\<close> means no change).
\<close>

record canon =
  c_lon12 :: real
  c_lat1 :: real
  c_lat2 :: real
  c_lonsign :: int
  c_swapp :: int
  c_latsign :: int

definition canonicalize :: "real \<Rightarrow> real \<Rightarrow> real \<Rightarrow> real \<Rightarrow> canon" where
  "canonicalize lat1_arg lon1_arg lat2_arg lon2 =
     (let lon1 = AngNormalize lon1_arg;
          lon12_n = AngNormalize (AngNormalize lon2 - lon1);
          lon12_r = AngRound lon12_n;
          lonsign0 = (if 0 \<le> lon12_r then 1 else - 1);
          lon12 = lon12_r * of_int lonsign0;
          lat1_r = AngRound lat1_arg;
          lat2_r = AngRound lat2_arg;
          swapp = (if \<bar>lat1_r\<bar> \<ge> \<bar>lat2_r\<bar> then 1 else - 1);
          lonsign = (if swapp < 0 then lonsign0 * (- 1) else lonsign0);
          lat1_s = (if swapp < 0 then lat2_r else lat1_r);
          lat2_s = (if swapp < 0 then lat1_r else lat2_r);
          latsign = (if lat1_s < 0 then 1 else - 1);
          lat1 = lat1_s * of_int latsign;
          lat2 = lat2_s * of_int latsign
      in \<lparr>c_lon12 = lon12, c_lat1 = lat1, c_lat2 = lat2,
          c_lonsign = lonsign, c_swapp = swapp, c_latsign = latsign\<rparr>)"

text \<open>The reduced latitudes and the longitude difference in radians.\<close>

record reduced =
  u_sbet1 :: real
  u_cbet1 :: real
  u_n1 :: real
  u_sbet2 :: real
  u_cbet2 :: real
  u_sbet12 :: real
  u_sbet12a :: real
  u_chi12 :: real
  u_cchi12 :: real
  u_schi12 :: real

definition Inverse_reduced :: "geodesic \<Rightarrow> real \<Rightarrow> real \<Rightarrow> real \<Rightarrow> reduced" where
  "Inverse_reduced g lat1 lat2 lon12 =
     (let phi1 = lat1 * degree;
          sbet1_u = g_f1 g * sin phi1;
          cbet1_u = (if lat1 = - 90 then eps2 else cos phi1);
          n1 = hypot sbet1_u cbet1_u;
          sbet1 = sbet1_u / n1;
          cbet1 = cbet1_u / n1;
          phi2 = lat2 * degree;
          sbet2_u = g_f1 g * sin phi2;
          cbet2_u = (if \<bar>lat2\<bar> = 90 then eps2 else cos phi2);
          (sbet2, cbet2) = SinCosNorm sbet2_u cbet2_u;
          sbet12 = sbet2 * cbet1 - cbet2 * sbet1;
          sbet12a = sbet2 * cbet1 + cbet2 * sbet1;
          chi12 = lon12 * degree;
          cchi12 = cos chi12;
          schi12 = (if lon12 = 180 then 0 else sin chi12)
      in \<lparr>u_sbet1 = sbet1, u_cbet1 = cbet1, u_n1 = n1, u_sbet2 = sbet2, u_cbet2 = cbet2,
          u_sbet12 = sbet12, u_sbet12a = sbet12a, u_chi12 = chi12, u_cchi12 = cchi12,
          u_schi12 = schi12\<rparr>)"

text \<open>The three cases of the \<^verbatim>\<open>if\<close> \<dots> \<^verbatim>\<open>else if\<close> \<dots> \<^verbatim>\<open>else\<close> of \<^verbatim>\<open>Inverse\<close>, with the
  conditions of the source in their order.\<close>

datatype branch = Meridional | Equatorial | General

definition Inverse_branch :: "geodesic \<Rightarrow> real \<Rightarrow> reduced \<Rightarrow> branch" where
  "Inverse_branch g lat1 u =
     (if u_schi12 u = 0 \<or> lat1 = - 90 then Meridional
      else if u_sbet1 u = 0 \<and> u_chi12 u \<le> pi - g_f g * pi then Equatorial
      else General)"

text \<open>What a case leaves behind for the conversion to azimuths.\<close>

record solution =
  sol_s12 :: real
  sol_salp1 :: real
  sol_calp1 :: real
  sol_salp2 :: real
  sol_calp2 :: real

definition meridional :: "geodesic \<Rightarrow> reduced \<Rightarrow> solution" where
  "meridional g u =
     (let calp1 = u_cchi12 u;
          salp1 = u_schi12 u;
          calp2 = 1;
          salp2 = 0;
          (ssig1, csig1) = SinCosNorm (u_sbet1 u) (calp1 * u_cbet1 u);
          (ssig2, csig2) = SinCosNorm (u_sbet2 u) (calp2 * u_cbet2 u);
          sig12 = atan2 (max (csig1 * ssig2 - ssig1 * csig2) 0)
                    (csig1 * csig2 + ssig1 * ssig2);
          c = tauCoeff (g_ep2 g);
          s12 = g_b g * tauScale (g_ep2 g) *
                  (sig12 + (SinSeries_val ssig2 csig2 c maxpow_taucoef -
                            SinSeries_val ssig1 csig1 c maxpow_taucoef))
      in \<lparr>sol_s12 = s12, sol_salp1 = salp1, sol_calp1 = calp1,
          sol_salp2 = salp2, sol_calp2 = calp2\<rparr>)"

definition equatorial :: "geodesic \<Rightarrow> reduced \<Rightarrow> solution" where
  "equatorial g u =
     \<lparr>sol_s12 = g_a g * u_chi12 u, sol_salp1 = 1, sol_calp1 = 0,
      sol_salp2 = 1, sol_calp2 = 0\<rparr>"

text \<open>
  The starting point of the inner iteration near the antipodal point: the chain
  \<^verbatim>\<open>if (y == 0)\<close> \<dots> \<^verbatim>\<open>else if (y > - 0.027 && x > -1.09 && x < -0.91)\<close> \<dots> \<^verbatim>\<open>else\<close>.
\<close>

definition astroid_estimate :: "real \<Rightarrow> real \<Rightarrow> real \<times> real" where
  "astroid_estimate x y =
     (if y = 0 then (1, 0)
      else if - (27 / 1000) < y \<and> - (109 / 100) < x \<and> x < - (91 / 100) then
        (let a = (x + 1) / sq (cbrt y);
             a3 = sq a * a;
             disc = 27 - 8 * a3;
             v = (if 0 \<le> disc then
                    (let s0 = 4 * a3 - 27;
                         s1 = s0 + (if 0 < s0 then 1 else - 1) * 3 * sqrt 3 * sqrt disc;
                         s2 = s1 / (4 * a3);
                         s3 = cbrt s2
                     in 1 + (s3 + 1 / s3))
                  else
                    (let ang = atan2 (3 * sqrt 3 * sqrt (- disc)) (4 * a3 - 27) + 2 * pi
                     in 1 + 2 * cos (ang / 3)));
             calp1 = cbrt (- y) * (- 3) / a / v;
             salp1 = sqrt (1 - sq calp1)
         in (salp1, calp1))
      else (0, 1))"

text \<open>The inner loop \<^verbatim>\<open>for (unsigned i = 0; i < 30; ++i)\<close>, which returns the pair
  \<open>(salp1, calp1)\<close>. (The counter \<^verbatim>\<open>iterx\<close> it increments is not read.)\<close>

function astroid_loop :: "real \<Rightarrow> real \<Rightarrow> nat \<Rightarrow> real \<Rightarrow> real \<Rightarrow> real \<times> real" where
  "astroid_loop x y i salp1 calp1 =
     (if i < 30 then
        (let v = calp1 * (salp1 + x) - y * salp1;
             dv = - calp1 * y - salp1 * x + (calp1 - salp1) * (calp1 + salp1);
             da = - v / dv;
             sda = sin da;
             cda = cos da;
             nsalp1 = salp1 * cda + calp1 * sda
         in if v = 0 then (salp1, calp1)
            else
              (let p = SinCosNorm (max 0 nsalp1) (max 0 (calp1 * cda - salp1 * sda))
               in if \<bar>da\<bar> < tol1 then p else astroid_loop x y (i + 1) (fst p) (snd p)))
      else (salp1, calp1))"
  by pat_completeness auto
termination
  by (relation "measure (\<lambda>(x, y, i, salp1, calp1). 30 - i)") auto

declare astroid_loop.simps [simp del]

text \<open>The block ``Figure a starting point for Newton's method'': the pair
  \<open>(salp1, calp1)\<close> the main iteration starts from.\<close>

definition InitialGuess :: "geodesic \<Rightarrow> reduced \<Rightarrow> real \<times> real" where
  "InitialGuess g u =
     (let sbet1 = u_sbet1 u; cbet1 = u_cbet1 u; sbet2 = u_sbet2 u; cbet2 = u_cbet2 u;
          schi12 = u_schi12 u; cchi12 = u_cchi12 u;
          csig12 = sbet1 * sbet2 + cbet1 * cbet2 * cchi12;
          salp1 = cbet2 * schi12;
          calp1 = (if 0 \<le> cchi12
                   then u_sbet12 u * g_f1 g / u_n1 u + cbet2 * sbet1 * sq schi12 / (1 + cchi12)
                   else u_sbet12a u - cbet2 * sbet1 * sq schi12 / (1 - cchi12));
          ssig12 = hypot salp1 calp1;
          chicrita = - cbet1 * dlamScale (g_f g) (sq sbet1) * pi
      in if 0 \<le> csig12 \<or> 3 * chicrita * cbet1 \<le> ssig12 then SinCosNorm salp1 calp1
         else
           (let x = (u_chi12 u - pi) / chicrita;
                y = u_sbet12a u / (chicrita * cbet1)
            in if - tol < y \<and> - 1 - xthresh < x then
                 (let salp1 = min 1 (- x);
                      calp1 = - sqrt (1 - sq salp1)
                  in (salp1, calp1))
               else
                 (let (salp1, calp1) = astroid_estimate x y;
                      (salp1, calp1) = astroid_loop x y 0 salp1 calp1;
                      r = hypot y (salp1 + x) * chicrita * salp1;
                      schi12 = sin r;
                      cchi12 = - cos r;
                      salp1 = cbet2 * schi12;
                      calp1 = u_sbet12a u - cbet2 * sbet1 * sq schi12 / (1 - cchi12)
                  in SinCosNorm salp1 calp1)))"


subsection \<open>The main Newton iteration\<close>

text \<open>
  The variables the loop \<^verbatim>\<open>for (unsigned i = 0, trip = 0; i < 50; ++i)\<close> reads and
  writes. \<open>n_evals\<close> is not a variable of the source: it counts the executions of the
  loop body, each of which calls \<^verbatim>\<open>Chi12\<close> once.
\<close>

record newton_state =
  n_i :: nat
  n_trip :: nat
  n_salp1 :: real
  n_calp1 :: real
  n_salp2 :: real
  n_calp2 :: real
  n_sig12 :: real
  n_ssig1 :: real
  n_csig1 :: real
  n_ssig2 :: real
  n_csig2 :: real
  n_u2 :: real
  n_evals :: nat

text \<open>The reference arguments after a call of \<^verbatim>\<open>Chi12\<close>.\<close>

definition store_chi12 :: "chi12_out \<Rightarrow> newton_state \<Rightarrow> newton_state" where
  "store_chi12 r st =
     st\<lparr>n_salp2 := o_salp2 r, n_calp2 := o_calp2 r, n_sig12 := o_sig12 r,
        n_ssig1 := o_ssig1 r, n_csig1 := o_csig1 r, n_ssig2 := o_ssig2 r,
        n_csig2 := o_csig2 r, n_u2 := o_u2 r, n_evals := n_evals st + 1\<rparr>"

text \<open>The test \<^verbatim>\<open>if (abs(v) <= eps2 || !(trip < 1)) break;\<close>.\<close>

definition Newton_break :: "nat \<Rightarrow> real \<Rightarrow> bool" where
  "Newton_break trip v = (\<bar>v\<bar> \<le> eps2 \<or> \<not> trip < 1)"

text \<open>The update of \<open>(salp1, calp1)\<close> from the residual \<open>v\<close> and its derivative \<open>dv\<close> (the
  branch \<^verbatim>\<open>#if 1\<close>).\<close>

definition Newton_update :: "real \<Rightarrow> real \<Rightarrow> real \<Rightarrow> real \<Rightarrow> real \<times> real" where
  "Newton_update salp1 calp1 v dv =
     (let dalp1 = - v / dv;
          sdalp1 = sin dalp1;
          cdalp1 = cos dalp1;
          nsalp1 = salp1 * cdalp1 + calp1 * sdalp1;
          calp1' = calp1 * cdalp1 - salp1 * sdalp1;
          salp1' = max 0 nsalp1
      in SinCosNorm salp1' calp1')"

text \<open>
  The loop. In the branch that goes on, \<open>trip < 1\<close> holds, so \<^verbatim>\<open>Chi12\<close> was called with
  \<^verbatim>\<open>diffp\<close> true and has assigned \<^verbatim>\<open>dv\<close>.
\<close>

function Newton ::
  "geodesic \<Rightarrow> real \<Rightarrow> real \<Rightarrow> real \<Rightarrow> real \<Rightarrow> real \<Rightarrow> newton_state \<Rightarrow> newton_state" where
  "Newton g sbet1 cbet1 sbet2 cbet2 chi12 st =
     (if n_i st < 50 then
        (let r = Chi12 g sbet1 cbet1 sbet2 cbet2 (n_salp1 st) (n_calp1 st) (n_trip st < 1);
             v = o_chi12 r - chi12;
             st1 = store_chi12 r st
         in if Newton_break (n_trip st) v then st1
            else
              (let p = Newton_update (n_salp1 st) (n_calp1 st) v (the (o_dchi12 r))
               in Newton g sbet1 cbet1 sbet2 cbet2 chi12
                    (st1\<lparr>n_salp1 := fst p, n_calp1 := snd p,
                         n_trip := (if \<bar>v\<bar> < tol then n_trip st + 1 else n_trip st),
                         n_i := n_i st + 1\<rparr>)))
      else st)"
  by pat_completeness auto
termination
  by (relation "measure (\<lambda>(g, sbet1, cbet1, sbet2, cbet2, chi12, st). 50 - n_i st)")
    (auto simp: store_chi12_def)

declare Newton.simps [simp del]

text \<open>
  The state at the entry of the loop. The source declares \<^verbatim>\<open>sig12\<close>, \<^verbatim>\<open>ssig1\<close>, \<dots>,
  \<^verbatim>\<open>u2\<close> without a value and \<^verbatim>\<open>calp2\<close>, \<^verbatim>\<open>salp2\<close> likewise; the first execution of the
  body assigns them all.
\<close>

definition Newton_init :: "real \<Rightarrow> real \<Rightarrow> newton_state" where
  "Newton_init salp1 calp1 =
     \<lparr>n_i = 0, n_trip = 0, n_salp1 = salp1, n_calp1 = calp1, n_salp2 = 0, n_calp2 = 0,
      n_sig12 = 0, n_ssig1 = 0, n_csig1 = 0, n_ssig2 = 0, n_csig2 = 0, n_u2 = 0,
      n_evals = 0\<rparr>"

text \<open>The \<^verbatim>\<open>else\<close> case of \<^verbatim>\<open>Inverse\<close>. Whatever ended the loop, the distance is computed
  from its last state.\<close>

definition general :: "geodesic \<Rightarrow> reduced \<Rightarrow> solution" where
  "general g u =
     (let (salp1, calp1) = InitialGuess g u;
          st = Newton g (u_sbet1 u) (u_cbet1 u) (u_sbet2 u) (u_cbet2 u) (u_chi12 u)
                 (Newton_init salp1 calp1);
          c = tauCoeff (n_u2 st);
          s12 = g_b g * tauScale (n_u2 st) *
                  (n_sig12 st + (SinSeries_val (n_ssig2 st) (n_csig2 st) c maxpow_taucoef -
                                 SinSeries_val (n_ssig1 st) (n_csig1 st) c maxpow_taucoef))
      in \<lparr>sol_s12 = s12, sol_salp1 = n_salp1 st, sol_calp1 = n_calp1 st,
          sol_salp2 = n_salp2 st, sol_calp2 = n_calp2 st\<rparr>)"

definition Inverse_solve :: "geodesic \<Rightarrow> real \<Rightarrow> real \<Rightarrow> real \<Rightarrow> solution" where
  "Inverse_solve g lat1 lat2 lon12 =
     (let u = Inverse_reduced g lat1 lat2 lon12
      in case Inverse_branch g lat1 u of
           Meridional \<Rightarrow> meridional g u
         | Equatorial \<Rightarrow> equatorial g u
         | General \<Rightarrow> general g u)"



text \<open>
  How a call of \<^verbatim>\<open>Inverse\<close> ends. The source declares the function \<^verbatim>\<open>throw()\<close>, returns
  \<^verbatim>\<open>void\<close> and has no statement that signals an error: every call ends by the
  \<^verbatim>\<open>return\<close> after the azimuths are assigned. The two errors are those the spec names.
\<close>

datatype error = DomainError | ConvergenceError real real real real


text \<open>The case \<^verbatim>\<open>Inverse\<close> takes for given arguments.\<close>

definition Inverse_case :: "geodesic \<Rightarrow> real \<Rightarrow> real \<Rightarrow> real \<Rightarrow> real \<Rightarrow> branch" where
  "Inverse_case g lat1 lon1 lat2 lon2 =
     (let k = canonicalize lat1 lon1 lat2 lon2
      in Inverse_branch g (c_lat1 k) (Inverse_reduced g (c_lat1 k) (c_lat2 k) (c_lon12 k)))"


subsection \<open>The geodesic line and the direct problem\<close>

record geodesic_line =
  l_lat1 :: real
  l_lon1 :: real
  l_azi1 :: real
  l_f1 :: real
  l_bsign :: int
  l_salp0 :: real
  l_calp0 :: real
  l_ssig1 :: real
  l_csig1 :: real
  l_slam1 :: real
  l_clam1 :: real
  l_sScale :: real
  l_sigCoeff :: "real list"
  l_dtau1 :: real
  l_stau1 :: real
  l_ctau1 :: real
  l_dlamScale :: real
  l_dlamCoeff :: "real list"
  l_dchi1 :: real

text \<open>The constructor \<^verbatim>\<open>GeodesicLine::GeodesicLine(g, lat1, lon1, azi1)\<close>.\<close>

definition GeodesicLine :: "geodesic \<Rightarrow> real \<Rightarrow> real \<Rightarrow> real \<Rightarrow> geodesic_line" where
  "GeodesicLine g lat1 lon1_arg azi1_arg =
     (let azi1_n = AngNormalize azi1_arg;
          lon1_p = (if lat1 = 90 then lon1_arg - (azi1_n - (if 0 \<le> azi1_n then 180 else - 180))
                    else if lat1 = - 90 then lon1_arg + azi1_n
                    else lon1_arg);
          azi1_p = (if lat1 = 90 then - 180 else if lat1 = - 90 then 0 else azi1_n);
          azi1_r = AngRound azi1_p;
          lon1 = AngNormalize lon1_p;
          bsign = (if 0 \<le> azi1_r then 1 else - 1);
          azi1 = azi1_r * of_int bsign;
          f1 = g_f1 g;
          alp1 = azi1 * degree;
          salp1 = (if azi1 = 180 then 0 else sin alp1);
          calp1 = (if azi1 = 90 then 0 else cos alp1);
          phi = lat1 * degree;
          sbet1_u = f1 * sin phi;
          cbet1_u = (if \<bar>lat1\<bar> = 90 then eps2 else cos phi);
          (sbet1, cbet1) = SinCosNorm sbet1_u cbet1_u;
          salp0 = salp1 * cbet1;
          calp0 = hypot calp1 (salp1 * sbet1);
          csig1_u = (if sbet1 \<noteq> 0 \<or> calp1 \<noteq> 0 then cbet1 * calp1 else 1);
          (ssig1, csig1) = SinCosNorm sbet1 csig1_u;
          (slam1, clam1) = SinCosNorm (salp0 * sbet1) csig1_u;
          mu = sq calp0;
          u2 = mu * g_ep2 g;
          sScale = g_b g * tauScale u2;
          dtau1 = SinSeries_val ssig1 csig1 (tauCoeff u2) maxpow_taucoef;
          s = sin dtau1;
          c = cos dtau1;
          stau1 = ssig1 * c + csig1 * s;
          ctau1 = csig1 * c - ssig1 * s;
          dlamScale1 = salp0 * dlamScale (g_f g) mu;
          dlamCoeff1 = dlamCoeff (g_f g) mu;
          dchi1 = SinSeries_val ssig1 csig1 dlamCoeff1 maxpow_lamcoef
      in \<lparr>l_lat1 = lat1, l_lon1 = lon1, l_azi1 = azi1, l_f1 = f1, l_bsign = bsign,
          l_salp0 = salp0, l_calp0 = calp0, l_ssig1 = ssig1, l_csig1 = csig1,
          l_slam1 = slam1, l_clam1 = clam1, l_sScale = sScale, l_sigCoeff = sigCoeff u2,
          l_dtau1 = dtau1, l_stau1 = stau1, l_ctau1 = ctau1, l_dlamScale = dlamScale1,
          l_dlamCoeff = dlamCoeff1, l_dchi1 = dchi1\<rparr>)"

text \<open>
  \<^verbatim>\<open>GeodesicLine::Position(s12, lat2, lon2, azi2)\<close>. The three reference arguments are
  the triple the function takes and returns: what the caller's variables hold before
  and after the call.
\<close>

definition Position ::
  "geodesic_line \<Rightarrow> real \<Rightarrow> real \<times> real \<times> real \<Rightarrow> real \<times> real \<times> real" where
  "Position l s12 out =
     (if l_sScale l = 0 then out
      else
        (let tau12 = s12 / l_sScale l;
             s = sin tau12;
             c = cos tau12;
             sig12 = tau12 + (l_dtau1 l +
                       SinSeries_val (l_stau1 l * c + l_ctau1 l * s)
                         (l_ctau1 l * c - l_stau1 l * s) (l_sigCoeff l) maxpow_sigcoef);
             s = sin sig12;
             c = cos sig12;
             ssig2 = l_ssig1 l * c + l_csig1 l * s;
             csig2 = l_csig1 l * c - l_ssig1 l * s;
             sbet2 = l_calp0 l * ssig2;
             cbet2 = hypot (l_salp0 l) (l_calp0 l * csig2);
             slam2 = l_salp0 l * ssig2;
             clam2 = csig2;
             salp2 = l_salp0 l;
             calp2 = l_calp0 l * csig2;
             lam12 = atan2 (slam2 * l_clam1 l - clam2 * l_slam1 l)
                       (clam2 * l_clam1 l + slam2 * l_slam1 l);
             chi12 = lam12 + l_dlamScale l *
                       (sig12 + (SinSeries_val ssig2 csig2 (l_dlamCoeff l) maxpow_lamcoef -
                                 l_dchi1 l));
             lon12_u = of_int (l_bsign l) * chi12 / degree;
             lon12 = lon12_u - 360 * of_int \<lfloor>lon12_u / 360 + 1 / 2\<rfloor>;
             lat2 = atan2 sbet2 (l_f1 l * cbet2) / degree;
             lon2 = AngNormalize (l_lon1 l + lon12);
             azi2 = 0 - atan2 (of_int (- azi2sense * l_bsign l) * salp2)
                          (of_int azi2sense * calp2) / degree
         in (lat2, lon2, azi2)))"

text \<open>\<^verbatim>\<open>Geodesic::Direct\<close> builds the line and asks for the position.\<close>

definition Direct ::
  "geodesic \<Rightarrow> real \<Rightarrow> real \<Rightarrow> real \<Rightarrow> real \<Rightarrow> real \<times> real \<times> real \<Rightarrow> real \<times> real \<times> real" where
  "Direct g lat1 lon1 azi1 s12 out = Position (GeodesicLine g lat1 lon1 azi1) s12 out"


section \<open>Properties\<close>

subsection \<open>Angles and elementary functions\<close>

lemma AngNormalize_range: "- 180 < AngNormalize x \<and> AngNormalize x \<le> 180"
proof (induction x rule: AngNormalize.induct)
  case (1 x)
  then show ?case by (subst AngNormalize.simps, subst (2) AngNormalize.simps) auto
qed

lemma AngNormalize_id: "- 180 < x \<Longrightarrow> x \<le> 180 \<Longrightarrow> AngNormalize x = x"
  by (subst AngNormalize.simps) simp

lemma AngRound_cases: "AngRound x = 0 \<or> AngRound x = x"
  by (simp add: AngRound_def)

lemma AngRound_abs_le: "\<bar>AngRound x\<bar> \<le> \<bar>x\<bar>"
  by (simp add: AngRound_def)

lemma AngRound_id: "1 \<le> \<bar>x\<bar> \<Longrightarrow> AngRound x = x"
proof -
  assume a: "1 \<le> \<bar>x\<bar>"
  have "\<bar>x + 1\<bar> / 2 ^ 52 \<le> \<bar>x + 1\<bar> / 2" 
    by (rule divide_left_mono) simp_all
  also have "\<dots> \<le> (\<bar>x\<bar> + 1) / 2" by (simp add: divide_right_mono)
  also have "\<dots> \<le> \<bar>x\<bar>" using a by simp
  finally show ?thesis by (simp add: AngRound_def)
qed

lemma AngRound_0: "AngRound 0 = 0"
  by (simp add: AngRound_def)




lemma degree_pos: "0 < degree"
  by (simp add: degree_def)



lemma eps2_pos: "0 < eps2"
  by (simp add: eps2_def)

lemma tol_less_one: "tol < 1"
  by (simp add: tol_def)

lemma hypot_nonneg: "0 \<le> hypot x y"
  by (simp add: hypot_def)

lemma hypot_pos_iff: "0 < hypot x y \<longleftrightarrow> x \<noteq> 0 \<or> y \<noteq> 0"
proof -
  have "0 < x * x + y * y \<longleftrightarrow> x \<noteq> 0 \<or> y \<noteq> 0"
    by (metis add.right_neutral add_pos_nonneg add_nonneg_pos mult_eq_0_iff not_square_less_zero less_le not_less zero_le_square add.left_neutral)
  then show ?thesis by (simp add: hypot_def)
qed

lemma SinCosNorm_fst_nonneg: "0 \<le> s \<Longrightarrow> 0 \<le> fst (SinCosNorm s c)"
  by (simp add: SinCosNorm_def Let_def hypot_nonneg)

subsection \<open>The sine series\<close>

lemma sin_product_step:
  "2 * cos (2 * x) * sin (2 * real (Suc j) * x) =
     sin (2 * real (Suc (Suc j)) * x) + sin (2 * real j * x)"
proof -
  have a: "2 * real (Suc (Suc j)) * x = 2 * real (Suc j) * x + 2 * x"
    by (simp add: algebra_simps)
  have b: "2 * real j * x = 2 * real (Suc j) * x - 2 * x"
    by (simp add: algebra_simps)
  show ?thesis
    unfolding a b sin_add sin_diff by simp
qed

lemma SinSeries_loop_sum:
  "sin (2 * x) * SinSeries_loop (2 * cos (2 * x)) c j y0 y1 =
     (\<Sum>k = 1..j. c ! (k - 1) * sin (2 * real k * x))
       + y0 * sin (2 * real (Suc j) * x) - y1 * sin (2 * real j * x)"
proof (induction j arbitrary: y0 y1)
  case 0
  show ?case by simp
next
  case (Suc j)
  have "sin (2 * x) * SinSeries_loop (2 * cos (2 * x)) c (Suc j) y0 y1 =
        (\<Sum>k = 1..j. c ! (k - 1) * sin (2 * real k * x))
          + (2 * cos (2 * x) * y0 - y1 + c ! j) * sin (2 * real (Suc j) * x)
          - y0 * sin (2 * real j * x)"
    by (simp add: Suc.IH)
  also have "\<dots> = (\<Sum>k = 1..j. c ! (k - 1) * sin (2 * real k * x))
          + c ! j * sin (2 * real (Suc j) * x)
          + y0 * (2 * cos (2 * x) * sin (2 * real (Suc j) * x) - sin (2 * real j * x))
          - y1 * sin (2 * real (Suc j) * x)"
    by (simp add: algebra_simps)
  also have "\<dots> = (\<Sum>k = 1..Suc j. c ! (k - 1) * sin (2 * real k * x))
          + y0 * sin (2 * real (Suc (Suc j)) * x) - y1 * sin (2 * real (Suc j) * x)"
    unfolding sin_product_step by simp
  finally show ?case .
qed

lemma SinSeries_val_sum:
  assumes "1 \<le> n"
  shows "SinSeries_val (sin x) (cos x) c n = (\<Sum>k = 1..n. c ! (k - 1) * sin (2 * real k * x))"
proof -
  obtain m where n: "n = Suc m" using assms by (cases n) auto
  have ar: "2 * (sq (cos x) - sq (sin x)) = 2 * cos (2 * x)"
    by (simp add: sq_def cos_double power2_eq_square)
  have s2: "2 * sin x * cos x = sin (2 * x)"
    by (simp add: sin_double)
  have "SinSeries_val (sin x) (cos x) c n =
        sin (2 * x) * SinSeries_loop (2 * cos (2 * x)) c m (c ! m) 0"
    unfolding SinSeries_val_def Let_def ar s2 n by simp
  also have "\<dots> = (\<Sum>k = 1..m. c ! (k - 1) * sin (2 * real k * x))
                    + c ! m * sin (2 * real (Suc m) * x)"
    unfolding SinSeries_loop_sum by simp
  also have "\<dots> = (\<Sum>k = 1..n. c ! (k - 1) * sin (2 * real k * x))"
    unfolding n by simp
  finally show ?thesis .
qed

lemma unit_pair_angle:
  assumes "sq sinx + sq cosx = 1"
  shows "\<exists>x. sin x = sinx \<and> cos x = cosx"
proof -
  have "cosx\<^sup>2 + sinx\<^sup>2 = 1" using assms by (simp add: sq_def power2_eq_square)
  then obtain t where "cosx = cos t" "sinx = sin t" using sincos_total_2pi by blast
  then show ?thesis by auto
qed

text \<open>
  C7. For \<open>n \<ge> 1\<close>, a coefficient array of at least \<open>n\<close> entries and a pair
  \<open>(sinx, cosx)\<close> on the unit circle, the pair is \<open>(sin x, cos x)\<close> for some angle \<open>x\<close>, and
  for every such \<open>x\<close> the Clenshaw recursion of \<^verbatim>\<open>SinSeries\<close> returns the sum of
  \<open>c[k-1] sin(2kx)\<close> over \<open>k = 1, \<dots>, n\<close>. For \<open>n = 0\<close> the function has no value.
\<close>

theorem SinSeries_clenshaw:
  assumes "1 \<le> n" and "n \<le> length c" and "sq sinx + sq cosx = 1"
  shows "(\<exists>x. sin x = sinx \<and> cos x = cosx) \<and>
         (\<forall>x. sin x = sinx \<and> cos x = cosx \<longrightarrow>
            SinSeries sinx cosx c n = Some (\<Sum>k = 1..n. c ! (k - 1) * sin (2 * real k * x))) \<and>
         SinSeries sinx cosx c 0 = None"
proof (intro conjI allI impI)
  show "\<exists>x. sin x = sinx \<and> cos x = cosx"
    using assms(3) by (rule unit_pair_angle)
next
  fix x
  assume "sin x = sinx \<and> cos x = cosx"
  then show "SinSeries sinx cosx c n = Some (\<Sum>k = 1..n. c ! (k - 1) * sin (2 * real k * x))"
    using assms(1,2) SinSeries_val_sum [of n x c] by (auto simp: SinSeries_def)
next
  show "SinSeries sinx cosx c 0 = None"
    by (simp add: SinSeries_def)
qed

text \<open>
  At \<open>x = \<pi>/4\<close> and the coefficients \<open>1, 2, 3\<close> the recursion returns
  \<open>sin(\<pi>/2) + 2 sin(\<pi>) + 3 sin(3\<pi>/2) = -2\<close>.
\<close>

theorem SinSeries_clenshaw_witness:
  "(1::nat) \<le> 3 \<and> (3::nat) \<le> length [1, 2, 3 :: real] \<and>
   sq (sqrt 2 / 2) + sq (sqrt 2 / 2) = 1 \<and>
   sin (pi / 4) = sqrt 2 / 2 \<and> cos (pi / 4) = sqrt 2 / 2 \<and>
   SinSeries (sqrt 2 / 2) (sqrt 2 / 2) [1, 2, 3] 3 = Some (- 2) \<and>
   (\<Sum>k = 1..3. [1, 2, 3 :: real] ! (k - 1) * sin (2 * real k * (pi / 4))) = - 2"
proof -
  have n: "(1::nat) \<le> 3" "(3::nat) \<le> length [1, 2, 3 :: real]" by simp_all
  have u: "sq (sqrt 2 / 2) + sq (sqrt 2 / 2) = 1" by (simp add: sq_def)
  have s: "sin (pi / 4) = sqrt 2 / 2" by (simp add: sin_45)
  have c: "cos (pi / 4) = sqrt 2 / 2" by (simp add: cos_45)
  have v: "SinSeries (sqrt 2 / 2) (sqrt 2 / 2) [1, 2, 3] 3 = Some (- 2)"
    by (simp add: SinSeries_def SinSeries_val_def sq_def numeral_3_eq_3)
  from SinSeries_clenshaw [OF n u] s c
  have "SinSeries (sqrt 2 / 2) (sqrt 2 / 2) [1, 2, 3] 3 =
        Some (\<Sum>k = 1..3. [1, 2, 3 :: real] ! (k - 1) * sin (2 * real k * (pi / 4)))"
    by blast
  with v n u s c show ?thesis by simp
qed

subsection \<open>The canonical form\<close>

lemma canonical_lon12_range:
  "0 \<le> c_lon12 (canonicalize lat1 lon1 lat2 lon2) \<and>
   c_lon12 (canonicalize lat1 lon1 lat2 lon2) \<le> 180"
proof -
  define d where "d = AngRound (AngNormalize (AngNormalize lon2 - AngNormalize lon1))"
  have dr: "- 180 \<le> d" "d \<le> 180"
    using AngNormalize_range [of "AngNormalize lon2 - AngNormalize lon1"]
      AngRound_cases [of "AngNormalize (AngNormalize lon2 - AngNormalize lon1)"]
    unfolding d_def by auto
  show ?thesis
    unfolding canonicalize_def Let_def d_def [symmetric]
    using dr by (simp split: if_splits)
qed

lemma canonicalize_witness_value:
  "canonicalize 20 350 (- 30) 10 =
     \<lparr>c_lon12 = 20, c_lat1 = - 30, c_lat2 = 20, c_lonsign = - 1, c_swapp = - 1, c_latsign = 1\<rparr>"
proof -
  have a: "AngNormalize 350 = - 10"
    by (subst AngNormalize.simps) (simp add: AngNormalize_id)
  have b: "AngNormalize 10 = 10" by (simp add: AngNormalize_id)
  have c: "AngNormalize 20 = 20" by (simp add: AngNormalize_id)
  show ?thesis
    by (simp add: canonicalize_def Let_def a b c AngRound_id)
qed

lemma canonicalize_meridian_180:
  "canonicalize (- 30) 0 20 180 =
     \<lparr>c_lon12 = 180, c_lat1 = - 30, c_lat2 = 20, c_lonsign = 1, c_swapp = 1, c_latsign = 1\<rparr>"
  by (simp add: canonicalize_def Let_def AngNormalize_id AngRound_id AngRound_0)



text \<open>
  C6. After the canonicalization of \<^verbatim>\<open>Inverse\<close>, for latitudes of absolute value at most
  \<open>90\<close>: \<open>0 \<le> lon12 \<le> 180\<close>, \<open>-90 \<le> lat1 \<le> 0\<close> and \<open>lat1 \<le> lat2 \<le> -lat1\<close>; the three
  signs are \<open>\<plusminus>1\<close> and record the transformation: \<open>lon12\<close> is \<open>swapp \<cdot> lonsign\<close> times the
  rounded, normalized longitude difference, and \<open>(lat1, lat2)\<close> is \<open>latsign\<close> times the rounded
  latitudes, exchanged if \<open>swapp = -1\<close>.
\<close>

theorem canonical_form:
  assumes "\<bar>lat1\<bar> \<le> 90" and "\<bar>lat2\<bar> \<le> 90"
  shows "0 \<le> c_lon12 (canonicalize lat1 lon1 lat2 lon2) \<and>
         c_lon12 (canonicalize lat1 lon1 lat2 lon2) \<le> 180 \<and>
         - 90 \<le> c_lat1 (canonicalize lat1 lon1 lat2 lon2) \<and>
         c_lat1 (canonicalize lat1 lon1 lat2 lon2) \<le> 0 \<and>
         c_lat1 (canonicalize lat1 lon1 lat2 lon2) \<le> c_lat2 (canonicalize lat1 lon1 lat2 lon2) \<and>
         c_lat2 (canonicalize lat1 lon1 lat2 lon2) \<le> - c_lat1 (canonicalize lat1 lon1 lat2 lon2) \<and>
         \<bar>c_lonsign (canonicalize lat1 lon1 lat2 lon2)\<bar> = 1 \<and>
         \<bar>c_swapp (canonicalize lat1 lon1 lat2 lon2)\<bar> = 1 \<and>
         \<bar>c_latsign (canonicalize lat1 lon1 lat2 lon2)\<bar> = 1 \<and>
         c_lon12 (canonicalize lat1 lon1 lat2 lon2) =
           of_int (c_swapp (canonicalize lat1 lon1 lat2 lon2) *
                   c_lonsign (canonicalize lat1 lon1 lat2 lon2)) *
           AngRound (AngNormalize (AngNormalize lon2 - AngNormalize lon1)) \<and>
         c_lat1 (canonicalize lat1 lon1 lat2 lon2) =
           of_int (c_latsign (canonicalize lat1 lon1 lat2 lon2)) *
           (if c_swapp (canonicalize lat1 lon1 lat2 lon2) = 1 then AngRound lat1
            else AngRound lat2) \<and>
         c_lat2 (canonicalize lat1 lon1 lat2 lon2) =
           of_int (c_latsign (canonicalize lat1 lon1 lat2 lon2)) *
           (if c_swapp (canonicalize lat1 lon1 lat2 lon2) = 1 then AngRound lat2
            else AngRound lat1)"
proof -
  define d where "d = AngRound (AngNormalize (AngNormalize lon2 - AngNormalize lon1))"
  define a where "a = AngRound lat1"
  define b where "b = AngRound lat2"
  have dr: "- 180 \<le> d" "d \<le> 180"
    using AngNormalize_range [of "AngNormalize lon2 - AngNormalize lon1"]
      AngRound_cases [of "AngNormalize (AngNormalize lon2 - AngNormalize lon1)"]
    unfolding d_def by auto
  have ar: "\<bar>a\<bar> \<le> 90" using AngRound_abs_le [of lat1] assms(1) unfolding a_def by linarith
  have br: "\<bar>b\<bar> \<le> 90" using AngRound_abs_le [of lat2] assms(2) unfolding b_def by linarith
  show ?thesis
    unfolding canonicalize_def Let_def d_def [symmetric] a_def [symmetric] b_def [symmetric]
    using dr ar br by (simp add: abs_real_def split: if_splits)
qed

text \<open>
  From \<open>(20, 350)\<close> to \<open>(-30, 10)\<close>: the longitude difference is \<open>20\<close>, the points are
  exchanged and no latitude changes its sign.
\<close>

theorem canonical_form_witness:
  "\<bar>20 :: real\<bar> \<le> 90 \<and> \<bar>- 30 :: real\<bar> \<le> 90 \<and>
   canonicalize 20 350 (- 30) 10 =
     \<lparr>c_lon12 = 20, c_lat1 = - 30, c_lat2 = 20, c_lonsign = - 1, c_swapp = - 1, c_latsign = 1\<rparr> \<and>
   0 \<le> c_lon12 (canonicalize 20 350 (- 30) 10) \<and>
   c_lon12 (canonicalize 20 350 (- 30) 10) \<le> 180 \<and>
   - 90 \<le> c_lat1 (canonicalize 20 350 (- 30) 10) \<and>
   c_lat1 (canonicalize 20 350 (- 30) 10) \<le> 0 \<and>
   c_lat1 (canonicalize 20 350 (- 30) 10) \<le> c_lat2 (canonicalize 20 350 (- 30) 10) \<and>
   c_lat2 (canonicalize 20 350 (- 30) 10) \<le> - c_lat1 (canonicalize 20 350 (- 30) 10)"
proof -
  have h: "\<bar>20 :: real\<bar> \<le> 90" "\<bar>- 30 :: real\<bar> \<le> 90" by simp_all
  from canonical_form [OF h, of 350 10] h
  show ?thesis by (simp add: canonicalize_witness_value)
qed

subsection \<open>The three cases\<close>

lemma sin_degree_zero_iff:
  assumes "0 \<le> L" and "L \<le> 180"
  shows "sin (L * degree) = 0 \<longleftrightarrow> L = 0 \<or> L = 180"
proof
  assume z: "sin (L * degree) = 0"
  show "L = 0 \<or> L = 180"
  proof (rule ccontr)
    assume "\<not> (L = 0 \<or> L = 180)"
    with assms have "0 < L" "L < 180" by auto
    then have "0 < L * degree" "L * degree < pi"
      by (simp_all add: degree_def field_simps)
    then have "0 < sin (L * degree)" by (rule sin_gt_zero)
    with z show False by simp
  qed
next
  assume "L = 0 \<or> L = 180"
  then show "sin (L * degree) = 0" by (auto simp: degree_def)
qed

lemma schi12_value:
  "u_schi12 (Inverse_reduced g lat1 lat2 lon12) = (if lon12 = 180 then 0 else sin (lon12 * degree))"
  by (simp add: Inverse_reduced_def Let_def split: prod.splits)

lemma cchi12_value:
  "u_cchi12 (Inverse_reduced g lat1 lat2 lon12) = cos (lon12 * degree)"
  by (simp add: Inverse_reduced_def Let_def split: prod.splits)

lemma schi12_is_sin: "u_schi12 (Inverse_reduced g lat1 lat2 lon12) = sin (lon12 * degree)"
  by (simp add: schi12_value degree_def)

lemma meridional_directions:
  "sol_salp1 (meridional g u) = u_schi12 u \<and> sol_calp1 (meridional g u) = u_cchi12 u \<and>
   sol_salp2 (meridional g u) = 0 \<and> sol_calp2 (meridional g u) = 1"
  by (simp add: meridional_def Let_def split: prod.splits)

lemma Inverse_branch_meridional_iff:
  "Inverse_branch g lat1 u = Meridional \<longleftrightarrow> u_schi12 u = 0 \<or> lat1 = - 90"
  by (simp add: Inverse_branch_def)

lemma Inverse_solve_meridional:
  "Inverse_branch g lat1 (Inverse_reduced g lat1 lat2 lon12) = Meridional \<Longrightarrow>
   Inverse_solve g lat1 lat2 lon12 = meridional g (Inverse_reduced g lat1 lat2 lon12)"
  by (simp add: Inverse_solve_def Let_def)




text \<open>
  C4 as stated fails: from \<open>(-30, 0)\<close> to \<open>(20, 180)\<close> the canonical longitude difference is
  \<open>180\<close> and the canonical \<open>lat1\<close> is \<open>-30\<close>, and the meridional case is taken, since the
  source sets \<^verbatim>\<open>schi12\<close> to \<open>0\<close> when \<^verbatim>\<open>lon12 == 180\<close>.
\<close>

theorem meridional_case_counterexample:
  "Inverse_case WGS84 (- 30) 0 20 180 = Meridional \<and>
   c_lon12 (canonicalize (- 30) 0 20 180) \<noteq> 0 \<and>
   c_lat1 (canonicalize (- 30) 0 20 180) \<noteq> - 90"
  by (simp add: Inverse_case_def Let_def canonicalize_meridian_180 Inverse_branch_meridional_iff
      schi12_value)

text \<open>
  C4, amended. \<^verbatim>\<open>Inverse\<close> takes the meridional case exactly when the canonical longitude
  difference is \<open>0\<close> or \<open>180\<close> or the canonical \<open>lat1\<close> is \<open>-90\<close>. In that case the result is
  that of \<^term>\<open>meridional\<close> (whose distance is the series in \<open>u\<^sup>2 = e'\<^sup>2\<close>), with
  \<open>sin \<alpha>\<^sub>1 = sin lon12\<close>, \<open>cos \<alpha>\<^sub>1 = cos lon12\<close>, \<open>sin \<alpha>\<^sub>2 = 0\<close> and \<open>cos \<alpha>\<^sub>2 = 1\<close>.
\<close>

theorem meridional_case_iff:
  "(Inverse_case g lat1 lon1 lat2 lon2 = Meridional \<longleftrightarrow>
      c_lon12 (canonicalize lat1 lon1 lat2 lon2) = 0 \<or>
      c_lon12 (canonicalize lat1 lon1 lat2 lon2) = 180 \<or>
      c_lat1 (canonicalize lat1 lon1 lat2 lon2) = - 90) \<and>
   (Inverse_case g lat1 lon1 lat2 lon2 = Meridional \<longrightarrow>
      Inverse_solve g (c_lat1 (canonicalize lat1 lon1 lat2 lon2))
          (c_lat2 (canonicalize lat1 lon1 lat2 lon2))
          (c_lon12 (canonicalize lat1 lon1 lat2 lon2)) =
        meridional g (Inverse_reduced g (c_lat1 (canonicalize lat1 lon1 lat2 lon2))
          (c_lat2 (canonicalize lat1 lon1 lat2 lon2))
          (c_lon12 (canonicalize lat1 lon1 lat2 lon2))) \<and>
      sol_salp1 (Inverse_solve g (c_lat1 (canonicalize lat1 lon1 lat2 lon2))
          (c_lat2 (canonicalize lat1 lon1 lat2 lon2))
          (c_lon12 (canonicalize lat1 lon1 lat2 lon2))) =
        sin (c_lon12 (canonicalize lat1 lon1 lat2 lon2) * degree) \<and>
      sol_calp1 (Inverse_solve g (c_lat1 (canonicalize lat1 lon1 lat2 lon2))
          (c_lat2 (canonicalize lat1 lon1 lat2 lon2))
          (c_lon12 (canonicalize lat1 lon1 lat2 lon2))) =
        cos (c_lon12 (canonicalize lat1 lon1 lat2 lon2) * degree) \<and>
      sol_salp2 (Inverse_solve g (c_lat1 (canonicalize lat1 lon1 lat2 lon2))
          (c_lat2 (canonicalize lat1 lon1 lat2 lon2))
          (c_lon12 (canonicalize lat1 lon1 lat2 lon2))) = 0 \<and>
      sol_calp2 (Inverse_solve g (c_lat1 (canonicalize lat1 lon1 lat2 lon2))
          (c_lat2 (canonicalize lat1 lon1 lat2 lon2))
          (c_lon12 (canonicalize lat1 lon1 lat2 lon2))) = 1)"
proof -
  define k where "k = canonicalize lat1 lon1 lat2 lon2"
  define u where "u = Inverse_reduced g (c_lat1 k) (c_lat2 k) (c_lon12 k)"
  have r: "0 \<le> c_lon12 k" "c_lon12 k \<le> 180"
    using canonical_lon12_range [of lat1 lon1 lat2 lon2] unfolding k_def by auto
  have s: "u_schi12 u = sin (c_lon12 k * degree)" unfolding u_def by (rule schi12_is_sin)
  have c: "u_cchi12 u = cos (c_lon12 k * degree)" unfolding u_def by (rule cchi12_value)
  have b: "Inverse_case g lat1 lon1 lat2 lon2 = Inverse_branch g (c_lat1 k) u"
    unfolding Inverse_case_def Let_def k_def u_def ..
  have i: "Inverse_branch g (c_lat1 k) u = Meridional \<longleftrightarrow>
           c_lon12 k = 0 \<or> c_lon12 k = 180 \<or> c_lat1 k = - 90"
    unfolding Inverse_branch_meridional_iff s using sin_degree_zero_iff [OF r] by auto
  have m: "Inverse_branch g (c_lat1 k) u = Meridional \<Longrightarrow>
           Inverse_solve g (c_lat1 k) (c_lat2 k) (c_lon12 k) = meridional g u"
    unfolding u_def by (rule Inverse_solve_meridional)
  show ?thesis
    unfolding k_def [symmetric] u_def [symmetric] b
    using i m meridional_directions [of g u] s c by auto
qed

text \<open>
  The two points on opposite meridians again: the case is the meridional one and the
  initial direction is \<open>(sin \<alpha>\<^sub>1, cos \<alpha>\<^sub>1) = (0, -1)\<close>.
\<close>

theorem meridional_case_iff_witness:
  "Inverse_case WGS84 (- 30) 0 20 180 = Meridional \<and>
   c_lon12 (canonicalize (- 30) 0 20 180) = 180 \<and>
   sol_salp1 (Inverse_solve WGS84 (- 30) 20 180) = 0 \<and>
   sol_calp1 (Inverse_solve WGS84 (- 30) 20 180) = - 1 \<and>
   sol_salp2 (Inverse_solve WGS84 (- 30) 20 180) = 0 \<and>
   sol_calp2 (Inverse_solve WGS84 (- 30) 20 180) = 1"
  using meridional_case_iff [of WGS84 "- 30" 0 20 180]
  by (auto simp: canonicalize_meridian_180 degree_def)

subsection \<open>The range of the azimuths\<close>








subsection \<open>The Newton iteration\<close>

text \<open>
  The derivative \<^verbatim>\<open>dv\<close> the loop divides by has been assigned: it is read only after a
  call of \<^verbatim>\<open>Chi12\<close> with \<^verbatim>\<open>diffp\<close> true.
\<close>

lemma Chi12_diffp_assigns:
  "\<exists>dv. o_dchi12 (Chi12 g sbet1 cbet1 sbet2 cbet2 salp1 calp1 True) = Some dv"
  unfolding Chi12_def
  by (simp only: Let_def split_beta chi12_out.select_convs if_True) blast

lemma Newton_at_cap: "\<not> n_i st < 50 \<Longrightarrow> Newton g sbet1 cbet1 sbet2 cbet2 chi12 st = st"
  by (subst Newton.simps) simp

lemma Newton_stops:
  assumes "n_i st < 50"
    and "\<bar>o_chi12 (Chi12 g sbet1 cbet1 sbet2 cbet2 (n_salp1 st) (n_calp1 st) (n_trip st < 1))
            - chi12\<bar> \<le> eps2 \<or> 1 \<le> n_trip st"
  shows "Newton g sbet1 cbet1 sbet2 cbet2 chi12 st =
         store_chi12 (Chi12 g sbet1 cbet1 sbet2 cbet2 (n_salp1 st) (n_calp1 st) (n_trip st < 1)) st"
proof -
  define r where "r = Chi12 g sbet1 cbet1 sbet2 cbet2 (n_salp1 st) (n_calp1 st) (n_trip st < 1)"
  have b: "Newton_break (n_trip st) (o_chi12 r - chi12)"
    using assms(2) unfolding r_def Newton_break_def by auto
  show ?thesis
    unfolding r_def [symmetric]
    by (subst Newton.simps, unfold r_def [symmetric] Let_def)
       (simp only: assms(1) b if_True)
qed

lemma Newton_goes_on:
  assumes "n_i st < 50" and "n_trip st < 1"
    and "eps2 < \<bar>o_chi12 (Chi12 g sbet1 cbet1 sbet2 cbet2 (n_salp1 st) (n_calp1 st) True)
                  - chi12\<bar>"
  shows "Newton g sbet1 cbet1 sbet2 cbet2 chi12 st =
         Newton g sbet1 cbet1 sbet2 cbet2 chi12
           ((store_chi12 (Chi12 g sbet1 cbet1 sbet2 cbet2 (n_salp1 st) (n_calp1 st) True) st)
              \<lparr>n_salp1 := fst (Newton_update (n_salp1 st) (n_calp1 st)
                   (o_chi12 (Chi12 g sbet1 cbet1 sbet2 cbet2 (n_salp1 st) (n_calp1 st) True)
                    - chi12)
                   (the (o_dchi12 (Chi12 g sbet1 cbet1 sbet2 cbet2 (n_salp1 st) (n_calp1 st)
                      True)))),
               n_calp1 := snd (Newton_update (n_salp1 st) (n_calp1 st)
                   (o_chi12 (Chi12 g sbet1 cbet1 sbet2 cbet2 (n_salp1 st) (n_calp1 st) True)
                    - chi12)
                   (the (o_dchi12 (Chi12 g sbet1 cbet1 sbet2 cbet2 (n_salp1 st) (n_calp1 st)
                      True)))),
               n_trip := (if \<bar>o_chi12 (Chi12 g sbet1 cbet1 sbet2 cbet2 (n_salp1 st)
                                (n_calp1 st) True) - chi12\<bar> < tol
                          then 1 else 0),
               n_i := n_i st + 1\<rparr>)"
proof -
  define r where "r = Chi12 g sbet1 cbet1 sbet2 cbet2 (n_salp1 st) (n_calp1 st) True"
  have t: "(n_trip st < 1) = True" using assms(2) by simp
  have nb: "Newton_break (n_trip st) (o_chi12 r - chi12) = False"
    using assms(2,3) unfolding r_def Newton_break_def by simp
  have t1: "n_trip st + 1 = 1" using assms(2) by simp
  have e: "Newton g sbet1 cbet1 sbet2 cbet2 chi12 st =
     (if n_i st < 50 then
        (let r = Chi12 g sbet1 cbet1 sbet2 cbet2 (n_salp1 st) (n_calp1 st) (n_trip st < 1);
             v = o_chi12 r - chi12;
             st1 = store_chi12 r st
         in if Newton_break (n_trip st) v then st1
            else
              (let p = Newton_update (n_salp1 st) (n_calp1 st) v (the (o_dchi12 r))
               in Newton g sbet1 cbet1 sbet2 cbet2 chi12
                    (st1\<lparr>n_salp1 := fst p, n_calp1 := snd p,
                         n_trip := (if \<bar>v\<bar> < tol then n_trip st + 1 else n_trip st),
                         n_i := n_i st + 1\<rparr>)))
      else st)"
    by (rule Newton.simps)
  have z: "n_trip st = 0" using assms(2) by simp
  show ?thesis
    unfolding r_def [symmetric]
    by (subst e, unfold t r_def [symmetric] Let_def nb t1)
       (simp only: assms(1) if_True if_False z)
qed

lemma Newton_evals_bound:
  "n_evals (Newton g sbet1 cbet1 sbet2 cbet2 chi12 st) \<le> n_evals st + (50 - n_i st)"
proof (induction g sbet1 cbet1 sbet2 cbet2 chi12 st rule: Newton.induct)
  case (1 g sbet1 cbet1 sbet2 cbet2 chi12 st)
  show ?case
  proof (cases "n_i st < 50")
    case False
    then show ?thesis by (subst Newton.simps) simp
  next
    case True
    define r where "r = Chi12 g sbet1 cbet1 sbet2 cbet2 (n_salp1 st) (n_calp1 st) (n_trip st < 1)"
    define v where "v = o_chi12 r - chi12"
    show ?thesis
    proof (cases "Newton_break (n_trip st) v")
      case b: True
      have "Newton g sbet1 cbet1 sbet2 cbet2 chi12 st = store_chi12 r st"
        using True b by (subst Newton.simps) (simp add: Let_def r_def v_def)
      with True show ?thesis by (simp add: store_chi12_def)
    next
      case b: False
      define p where "p = Newton_update (n_salp1 st) (n_calp1 st) v (the (o_dchi12 r))"
      define st' where "st' = (store_chi12 r st)\<lparr>n_salp1 := fst p, n_calp1 := snd p,
          n_trip := (if \<bar>v\<bar> < tol then n_trip st + 1 else n_trip st), n_i := n_i st + 1\<rparr>"
      have e: "Newton g sbet1 cbet1 sbet2 cbet2 chi12 st = Newton g sbet1 cbet1 sbet2 cbet2 chi12 st'"
        using True b by (subst Newton.simps) (simp add: Let_def r_def v_def p_def st'_def)
      have "n_evals (Newton g sbet1 cbet1 sbet2 cbet2 chi12 st') \<le> n_evals st' + (50 - n_i st')"
        using "1.IH" [OF True r_def v_def refl b p_def] unfolding st'_def r_def v_def p_def
        by simp
      with True show ?thesis unfolding e by (simp add: st'_def store_chi12_def)
    qed
  qed
qed

lemma Newton_trip_bound:
  "n_trip st \<le> 1 \<Longrightarrow> n_trip (Newton g sbet1 cbet1 sbet2 cbet2 chi12 st) \<le> 1"
proof (induction g sbet1 cbet1 sbet2 cbet2 chi12 st rule: Newton.induct)
  case (1 g sbet1 cbet1 sbet2 cbet2 chi12 st)
  show ?case
  proof (cases "n_i st < 50")
    case False
    then show ?thesis using "1.prems" by (simp add: Newton_at_cap)
  next
    case True
    define r where "r = Chi12 g sbet1 cbet1 sbet2 cbet2 (n_salp1 st) (n_calp1 st) (n_trip st < 1)"
    define v where "v = o_chi12 r - chi12"
    show ?thesis
    proof (cases "Newton_break (n_trip st) v")
      case b: True
      have "Newton g sbet1 cbet1 sbet2 cbet2 chi12 st = store_chi12 r st"
        using True b by (subst Newton.simps) (simp add: Let_def r_def v_def)
      with "1.prems" show ?thesis by (simp add: store_chi12_def)
    next
      case b: False
      then have t0: "n_trip st = 0" by (auto simp: Newton_break_def)
      define p where "p = Newton_update (n_salp1 st) (n_calp1 st) v (the (o_dchi12 r))"
      define st' where "st' = (store_chi12 r st)\<lparr>n_salp1 := fst p, n_calp1 := snd p,
          n_trip := (if \<bar>v\<bar> < tol then n_trip st + 1 else n_trip st), n_i := n_i st + 1\<rparr>"
      have e: "Newton g sbet1 cbet1 sbet2 cbet2 chi12 st = Newton g sbet1 cbet1 sbet2 cbet2 chi12 st'"
        using True b by (subst Newton.simps) (simp add: Let_def r_def v_def p_def st'_def)
      have "n_trip st' \<le> 1" by (simp add: st'_def t0)
      then have "n_trip (Newton g sbet1 cbet1 sbet2 cbet2 chi12 st') \<le> 1"
        using "1.IH" [OF True r_def v_def refl b p_def] unfolding st'_def r_def v_def p_def
        by simp
      then show ?thesis unfolding e .
    qed
  qed
qed

lemma Newton_update_rotation:
  "Newton_update (sin a) (cos a) v dv =
     SinCosNorm (max 0 (sin (a + (- v / dv)))) (cos (a + (- v / dv)))"
  by (simp add: Newton_update_def Let_def sin_diff cos_diff)

lemma Newton_update_sin_nonneg: "0 \<le> fst (Newton_update salp1 calp1 v dv)"
  by (simp add: Newton_update_def Let_def SinCosNorm_fst_nonneg)

lemma Newton_update_quarter_turn: "Newton_update 1 0 (pi / 2) (- 1) = (0, - 1)"
  by (simp add: Newton_update_def Let_def SinCosNorm_def hypot_def)

text \<open>
  C5 as stated fails twice. The update does not clamp \<open>cos \<alpha>\<^sub>1\<close>: from \<open>(1, 0)\<close> a step of
  \<open>d\<alpha> = \<pi>/2\<close> gives \<open>(0, -1)\<close>. And once \<^verbatim>\<open>trip\<close> is \<open>1\<close> the loop stops whatever the
  residual, here \<open>1\<close>, which is not below \<^verbatim>\<open>tol\<close>.
\<close>

theorem Newton_iteration_counterexample:
  "snd (Newton_update 1 0 (pi / 2) (- 1)) < 0 \<and> Newton_break 1 1 \<and> \<not> \<bar>1 :: real\<bar> < tol"
  using tol_less_one by (simp add: Newton_update_quarter_turn Newton_break_def)

text \<open>
  C5, amended. The body of the loop runs at most \<open>50\<close> times and \<^verbatim>\<open>trip\<close> never exceeds \<open>1\<close>.
  A step rotates \<open>(sin \<alpha>\<^sub>1, cos \<alpha>\<^sub>1)\<close> by \<open>d\<alpha> = - v / dv\<close> with the addition formulas, clamps
  the sine (only) at \<open>0\<close> and renormalizes. The loop ends without a step when \<open>i\<close> has
  reached \<open>50\<close>, and after the evaluation of \<^verbatim>\<open>Chi12\<close> when \<open>|v| \<le> eps2\<close> or when an
  earlier iteration had \<open>|v| < tol\<close> (\<open>trip \<ge> 1\<close>); otherwise it makes the step, sets
  \<^verbatim>\<open>trip\<close> to \<open>1\<close> if \<open>|v| < tol\<close>, and goes on.
\<close>

theorem Newton_iteration:
  "n_evals (Newton g sbet1 cbet1 sbet2 cbet2 chi12 (Newton_init salp1 calp1)) \<le> 50 \<and>
   n_trip (Newton g sbet1 cbet1 sbet2 cbet2 chi12 (Newton_init salp1 calp1)) \<le> 1 \<and>
   Newton_update (sin a) (cos a) v dv =
     SinCosNorm (max 0 (sin (a + (- v / dv)))) (cos (a + (- v / dv))) \<and>
   0 \<le> fst (Newton_update salp1 calp1 v dv) \<and>
   (\<not> n_i st < 50 \<longrightarrow> Newton g sbet1 cbet1 sbet2 cbet2 chi12 st = st) \<and>
   (n_i st < 50 \<and>
    (\<bar>o_chi12 (Chi12 g sbet1 cbet1 sbet2 cbet2 (n_salp1 st) (n_calp1 st) (n_trip st < 1))
        - chi12\<bar> \<le> eps2 \<or> 1 \<le> n_trip st) \<longrightarrow>
      Newton g sbet1 cbet1 sbet2 cbet2 chi12 st =
        store_chi12 (Chi12 g sbet1 cbet1 sbet2 cbet2 (n_salp1 st) (n_calp1 st) (n_trip st < 1))
          st) \<and>
   (n_i st < 50 \<and> n_trip st < 1 \<and>
    eps2 < \<bar>o_chi12 (Chi12 g sbet1 cbet1 sbet2 cbet2 (n_salp1 st) (n_calp1 st) True)
              - chi12\<bar> \<longrightarrow>
      Newton g sbet1 cbet1 sbet2 cbet2 chi12 st =
        Newton g sbet1 cbet1 sbet2 cbet2 chi12
          ((store_chi12 (Chi12 g sbet1 cbet1 sbet2 cbet2 (n_salp1 st) (n_calp1 st) True) st)
             \<lparr>n_salp1 := fst (Newton_update (n_salp1 st) (n_calp1 st)
                  (o_chi12 (Chi12 g sbet1 cbet1 sbet2 cbet2 (n_salp1 st) (n_calp1 st) True)
                   - chi12)
                  (the (o_dchi12 (Chi12 g sbet1 cbet1 sbet2 cbet2 (n_salp1 st) (n_calp1 st)
                     True)))),
              n_calp1 := snd (Newton_update (n_salp1 st) (n_calp1 st)
                  (o_chi12 (Chi12 g sbet1 cbet1 sbet2 cbet2 (n_salp1 st) (n_calp1 st) True)
                   - chi12)
                  (the (o_dchi12 (Chi12 g sbet1 cbet1 sbet2 cbet2 (n_salp1 st) (n_calp1 st)
                     True)))),
              n_trip := (if \<bar>o_chi12 (Chi12 g sbet1 cbet1 sbet2 cbet2 (n_salp1 st)
                               (n_calp1 st) True) - chi12\<bar> < tol
                         then 1 else 0),
              n_i := n_i st + 1\<rparr>))"
proof (intro conjI impI)
  show "n_evals (Newton g sbet1 cbet1 sbet2 cbet2 chi12 (Newton_init salp1 calp1)) \<le> 50"
    using Newton_evals_bound [of g sbet1 cbet1 sbet2 cbet2 chi12 "Newton_init salp1 calp1"]
    by (simp add: Newton_init_def)
next
  show "n_trip (Newton g sbet1 cbet1 sbet2 cbet2 chi12 (Newton_init salp1 calp1)) \<le> 1"
    by (rule Newton_trip_bound) (simp add: Newton_init_def)
next
  show "Newton_update (sin a) (cos a) v dv =
     SinCosNorm (max 0 (sin (a + (- v / dv)))) (cos (a + (- v / dv)))"
    by (rule Newton_update_rotation)
next
  show "0 \<le> fst (Newton_update salp1 calp1 v dv)"
    by (rule Newton_update_sin_nonneg)
next
  assume "\<not> n_i st < 50"
  then show "Newton g sbet1 cbet1 sbet2 cbet2 chi12 st = st" by (rule Newton_at_cap)
next
  assume a: "n_i st < 50 \<and>
    (\<bar>o_chi12 (Chi12 g sbet1 cbet1 sbet2 cbet2 (n_salp1 st) (n_calp1 st) (n_trip st < 1))
        - chi12\<bar> \<le> eps2 \<or> 1 \<le> n_trip st)"
  show "Newton g sbet1 cbet1 sbet2 cbet2 chi12 st =
        store_chi12 (Chi12 g sbet1 cbet1 sbet2 cbet2 (n_salp1 st) (n_calp1 st) (n_trip st < 1))
          st"
    by (rule Newton_stops) (use a in blast)+
next
  assume a: "n_i st < 50 \<and> n_trip st < 1 \<and>
    eps2 < \<bar>o_chi12 (Chi12 g sbet1 cbet1 sbet2 cbet2 (n_salp1 st) (n_calp1 st) True)
              - chi12\<bar>"
  show "Newton g sbet1 cbet1 sbet2 cbet2 chi12 st =
        Newton g sbet1 cbet1 sbet2 cbet2 chi12
          ((store_chi12 (Chi12 g sbet1 cbet1 sbet2 cbet2 (n_salp1 st) (n_calp1 st) True) st)
             \<lparr>n_salp1 := fst (Newton_update (n_salp1 st) (n_calp1 st)
                  (o_chi12 (Chi12 g sbet1 cbet1 sbet2 cbet2 (n_salp1 st) (n_calp1 st) True)
                   - chi12)
                  (the (o_dchi12 (Chi12 g sbet1 cbet1 sbet2 cbet2 (n_salp1 st) (n_calp1 st)
                     True)))),
              n_calp1 := snd (Newton_update (n_salp1 st) (n_calp1 st)
                  (o_chi12 (Chi12 g sbet1 cbet1 sbet2 cbet2 (n_salp1 st) (n_calp1 st) True)
                   - chi12)
                  (the (o_dchi12 (Chi12 g sbet1 cbet1 sbet2 cbet2 (n_salp1 st) (n_calp1 st)
                     True)))),
              n_trip := (if \<bar>o_chi12 (Chi12 g sbet1 cbet1 sbet2 cbet2 (n_salp1 st)
                               (n_calp1 st) True) - chi12\<bar> < tol
                         then 1 else 0),
              n_i := n_i st + 1\<rparr>)"
    by (rule Newton_goes_on) (use a in blast)+
qed

text \<open>
  The bounds for a run that starts from \<open>(1, 0)\<close>, the quarter turn of the counterexample
  as a rotation of the angle \<open>\<pi>/2\<close>, and a state with \<open>i = 50\<close>.
\<close>

theorem Newton_iteration_witness:
  "n_evals (Newton WGS84 0 1 0 1 1 (Newton_init 1 0)) \<le> 50 \<and>
   n_trip (Newton WGS84 0 1 0 1 1 (Newton_init 1 0)) \<le> 1 \<and>
   Newton_update (sin (pi / 2)) (cos (pi / 2)) (pi / 2) (- 1) = (0, - 1) \<and>
   SinCosNorm (max 0 (sin (pi / 2 + (- (pi / 2) / (- 1))))) (cos (pi / 2 + (- (pi / 2) / (- 1))))
     = (0, - 1) \<and>
   \<not> n_i ((Newton_init 1 0)\<lparr>n_i := 50\<rparr>) < 50 \<and>
   Newton WGS84 0 1 0 1 1 ((Newton_init 1 0)\<lparr>n_i := 50\<rparr>) = (Newton_init 1 0)\<lparr>n_i := 50\<rparr>"
proof -
  note t = Newton_iteration [of WGS84 0 1 0 1 1 1 0 "pi / 2" "pi / 2" "- 1"
      "(Newton_init 1 0)\<lparr>n_i := 50\<rparr>"]
  have c: "\<not> n_i ((Newton_init 1 0)\<lparr>n_i := 50\<rparr>) < 50" by simp
  have a: "n_evals (Newton WGS84 0 1 0 1 1 (Newton_init 1 0)) \<le> 50"
    using t by (elim conjE)
  have b: "n_trip (Newton WGS84 0 1 0 1 1 (Newton_init 1 0)) \<le> 1"
    using t by (elim conjE)
  have r: "Newton_update (sin (pi / 2)) (cos (pi / 2)) (pi / 2) (- 1) =
     SinCosNorm (max 0 (sin (pi / 2 + (- (pi / 2) / (- 1)))))
       (cos (pi / 2 + (- (pi / 2) / (- 1))))"
    using t by (elim conjE)
  have q: "Newton_update (sin (pi / 2)) (cos (pi / 2)) (pi / 2) (- 1) = (0, - 1)"
    by (simp add: Newton_update_quarter_turn)
  have e: "Newton WGS84 0 1 0 1 1 ((Newton_init 1 0)\<lparr>n_i := 50\<rparr>) =
           (Newton_init 1 0)\<lparr>n_i := 50\<rparr>"
    using t c by (elim conjE) blast
  from a b r q c e show ?thesis by (simp only: simp_thms)
qed

subsection \<open>Errors\<close>





subsection \<open>The guard of Chi12\<close>

text \<open>
  C10. At the entry of \<^verbatim>\<open>Chi12\<close>, \<open>calp1\<close> is replaced by \<open>- eps2\<close> if \<open>sbet1 = 0\<close> and
  \<open>calp1 = 0\<close>; hence \<open>calp0 = hypot(calp1, salp1 \<cdot> sbet1)\<close>, by which the derivative
  divides, is positive in every call whose pair \<open>(salp1, calp1)\<close> is not \<open>(0, 0)\<close>, as is
  every pair \<open>(sin \<alpha>\<^sub>1, cos \<alpha>\<^sub>1)\<close>.
\<close>

theorem Chi12_calp0_positive:
  assumes "salp1 \<noteq> 0 \<or> calp1 \<noteq> 0"
  shows "(sbet1 = 0 \<and> calp1 = 0 \<longrightarrow> Chi12_calp1 sbet1 calp1 = - eps2) \<and>
         0 < Chi12_calp0 sbet1 salp1 calp1 \<and>
         0 < Chi12_calp0 sbet1 (sin alp1) (cos alp1)"
proof -
  have "sin alp1 \<noteq> 0 \<or> cos alp1 \<noteq> 0"
    using sin_zero_abs_cos_one [of alp1] by auto
  then show ?thesis
    using assms eps2_pos by (auto simp: Chi12_calp0_def Chi12_calp1_def hypot_pos_iff)
qed

text \<open>
  The degenerate equatorial heading \<open>(salp1, calp1) = (1, 0)\<close> with \<open>sbet1 = 0\<close>.
\<close>

theorem Chi12_calp0_positive_witness:
  "(1::real) \<noteq> 0 \<and> Chi12_calp1 0 0 = - eps2 \<and> 0 < Chi12_calp0 0 1 0 \<and>
   Chi12_calp0 0 1 0 = eps2"
proof -
  have v: "Chi12_calp0 0 1 0 = eps2"
    using eps2_pos by (simp add: Chi12_calp0_def Chi12_calp1_def hypot_def)
  from Chi12_calp0_positive [of 1 0 0] v show ?thesis by simp
qed

subsection \<open>The uninitialized line\<close>

text \<open>
  C9. On a line with \<open>sScale = 0\<close>, \<^verbatim>\<open>Position\<close> leaves its three reference arguments as
  they were, whatever \<open>s12\<close> and the other fields of the line are.
\<close>

theorem Position_uninitialized:
  assumes "l_sScale l = 0"
  shows "Position l s12 (lat2, lon2, azi2) = (lat2, lon2, azi2)"
  using assms by (simp add: Position_def)

text \<open>
  A line whose fields are all zero.
\<close>

theorem Position_uninitialized_witness:
  "l_sScale \<lparr>l_lat1 = 0, l_lon1 = 0, l_azi1 = 0, l_f1 = 0, l_bsign = 0, l_salp0 = 0,
      l_calp0 = 0, l_ssig1 = 0, l_csig1 = 0, l_slam1 = 0, l_clam1 = 0, l_sScale = 0,
      l_sigCoeff = [], l_dtau1 = 0, l_stau1 = 0, l_ctau1 = 0, l_dlamScale = 0,
      l_dlamCoeff = [], l_dchi1 = 0\<rparr> = 0 \<and>
   Position \<lparr>l_lat1 = 0, l_lon1 = 0, l_azi1 = 0, l_f1 = 0, l_bsign = 0, l_salp0 = 0,
      l_calp0 = 0, l_ssig1 = 0, l_csig1 = 0, l_slam1 = 0, l_clam1 = 0, l_sScale = 0,
      l_sigCoeff = [], l_dtau1 = 0, l_stau1 = 0, l_ctau1 = 0, l_dlamScale = 0,
      l_dlamCoeff = [], l_dchi1 = 0\<rparr> 1000 (1, 2, 3) = (1, 2, 3)"
  using Position_uninitialized [of "\<lparr>l_lat1 = 0, l_lon1 = 0, l_azi1 = 0, l_f1 = 0,
      l_bsign = 0, l_salp0 = 0,
      l_calp0 = 0, l_ssig1 = 0, l_csig1 = 0, l_slam1 = 0, l_clam1 = 0, l_sScale = 0,
      l_sigCoeff = [], l_dtau1 = 0, l_stau1 = 0, l_ctau1 = 0, l_dlamScale = 0,
      l_dlamCoeff = [], l_dchi1 = 0\<rparr>" 1000 1 2 3]
  by simp

subsection \<open>The exchange of the two points\<close>



















end
